theory Spec2Isabelle
  imports Complex_Main "HOL-Library.Word"
begin

section \<open>Numbering engine (src/lib/supabase.ts)\<close>

text \<open>
  The helpers of \<^verbatim>\<open>src/lib/supabase.ts\<close> take and return JavaScript numbers. The
  properties verified here are about integer ticket and diary numbers, so a number is an
  \<^typ>\<open>int\<close>; the quotient \<^verbatim>\<open>lotteryNumber / 22\<close> is taken in the reals and
  \<^verbatim>\<open>Math.ceil\<close> is the ceiling, as in the source.
\<close>

text \<open>
  \<^verbatim>\<open>
  export function getDiaryFromLotteryNumber(lotteryNumber: number): number {
    if (lotteryNumber <= 39996) {
      return Math.ceil(lotteryNumber / 22);
    } else {
      return 1819; // Last diary
    }
  }
  \<close>
\<close>

definition getDiaryFromLotteryNumber :: "int \<Rightarrow> int" where
  "getDiaryFromLotteryNumber lotteryNumber =
     (if lotteryNumber \<le> 39996 then \<lceil>real_of_int lotteryNumber / 22\<rceil> else 1819)"

text \<open>
  The object \<^verbatim>\<open>{ start: number; end: number }\<close> returned by the range helper; its
  field \<^verbatim>\<open>end\<close> is \<open>end'\<close>.
\<close>

record ticket_range =
  start :: int
  end' :: int

text \<open>
  \<^verbatim>\<open>
  export function getTicketRangeForDiary(diaryNumber: number): { start: number; end: number } {
    if (diaryNumber === 1819) {
      return { start: 39997, end: 39999 };
    } else {
      const start = (diaryNumber - 1) * 22 + 1;
      const end = diaryNumber * 22;
      return { start, end };
    }
  }
  \<close>
\<close>

definition getTicketRangeForDiary :: "int \<Rightarrow> ticket_range" where
  "getTicketRangeForDiary diaryNumber =
     (if diaryNumber = 1819 then \<lparr>start = 39997, end' = 39999\<rparr>
      else \<lparr>start = (diaryNumber - 1) * 22 + 1, end' = diaryNumber * 22\<rparr>)"

text \<open>
  \<^verbatim>\<open>
  export function validateLotteryNumberForDiary(lotteryNumber: number, diaryNumber: number): boolean {
    const range = getTicketRangeForDiary(diaryNumber);
    return lotteryNumber >= range.start && lotteryNumber <= range.end;
  }
  \<close>
\<close>

definition validateLotteryNumberForDiary :: "int \<Rightarrow> int \<Rightarrow> bool" where
  "validateLotteryNumberForDiary lotteryNumber diaryNumber =
     (let range = getTicketRangeForDiary diaryNumber
      in lotteryNumber \<ge> start range \<and> lotteryNumber \<le> end' range)"

text \<open>
  The plain ceiling of \<open>n / 22\<close>, with no special case for the last diary: the
  definition the two-branch implementation is compared with.
\<close>

definition plainCeilingDiary :: "int \<Rightarrow> int" where
  "plainCeilingDiary n = \<lceil>real_of_int n / 22\<rceil>"

text \<open>
  The general formula of \<^const>\<open>getTicketRangeForDiary\<close> (its else-branch), applied
  to any diary number.
\<close>

definition generalRangeFormula :: "int \<Rightarrow> ticket_range" where
  "generalRangeFormula diaryNumber =
     \<lparr>start = (diaryNumber - 1) * 22 + 1, end' = diaryNumber * 22\<rparr>"

subsection \<open>Formatting and parsing ticket numbers\<close>

text \<open>
  \<^verbatim>\<open>
  export function formatLotteryNumber(lotteryNumber: number): string {
    return lotteryNumber.toString().padStart(5, '0');
  }
  export function parseLotteryNumber(lotteryNumberString: string): number {
    return parseInt(lotteryNumberString, 10);
  }
  \<close>
  A string is a list of characters, and a character is a code point below 256 (strings with
  other characters are outside this model). \<^verbatim>\<open>Number.prototype.toString\<close> of an integer is
  its decimal expansion, with a minus sign for a negative one; \<^verbatim>\<open>padStart\<close> with a
  one-character filler prepends the filler up to the target length and leaves a string that
  is long enough as it is; \<^verbatim>\<open>parseInt(s, 10)\<close> skips leading white space, reads an
  optional sign and the longest prefix of decimal digits, and yields \<^verbatim>\<open>NaN\<close> (here
  \<open>None\<close>) when there is no digit.
\<close>

definition digitChar :: "nat \<Rightarrow> char" where
  "digitChar d = char_of (48 + d)"

definition isDigit :: "char \<Rightarrow> bool" where
  "isDigit c \<longleftrightarrow> 48 \<le> (of_char c :: nat) \<and> (of_char c :: nat) \<le> 57"

definition digitValue :: "char \<Rightarrow> int" where
  "digitValue c = int (of_char c) - 48"

text \<open>
  The white space and line terminators of ECMAScript among these characters: tab, LF, VT,
  FF, CR, space and the no-break space U+00A0.
\<close>

definition isWhiteSpace :: "char \<Rightarrow> bool" where
  "isWhiteSpace c \<longleftrightarrow> (of_char c :: nat) \<in> {9, 10, 11, 12, 13, 32, 160}"

function toDigits :: "nat \<Rightarrow> string" where
  "toDigits n = (if n < 10 then [digitChar n] else toDigits (n div 10) @ [digitChar (n mod 10)])"
  by pat_completeness auto
termination
  by (relation "measure (\<lambda>n. n)") auto

declare toDigits.simps [simp del]

definition numberToString :: "int \<Rightarrow> string" where
  "numberToString n = (if n < 0 then CHR ''-'' # toDigits (nat (- n)) else toDigits (nat n))"

definition padStart :: "nat \<Rightarrow> char \<Rightarrow> string \<Rightarrow> string" where
  "padStart targetLength padChar s = replicate (targetLength - length s) padChar @ s"

definition formatLotteryNumber :: "int \<Rightarrow> string" where
  "formatLotteryNumber lotteryNumber = padStart 5 (CHR ''0'') (numberToString lotteryNumber)"

definition digitsToInt :: "string \<Rightarrow> int" where
  "digitsToInt ds = foldl (\<lambda>acc c. acc * 10 + digitValue c) 0 ds"

definition parseInt10 :: "string \<Rightarrow> int option" where
  "parseInt10 inputString =
     (let s = dropWhile isWhiteSpace inputString;
          negative = (s \<noteq> [] \<and> hd s = CHR ''-'');
          s' = (if s \<noteq> [] \<and> (hd s = CHR ''+'' \<or> hd s = CHR ''-'') then tl s else s);
          z = takeWhile isDigit s'
      in if z = [] then None
         else Some (if negative then - digitsToInt z else digitsToInt z))"

definition parseLotteryNumber :: "string \<Rightarrow> int option" where
  "parseLotteryNumber lotteryNumberString = parseInt10 lotteryNumberString"

section \<open>The table \<^verbatim>\<open>lottery_winners\<close> and its triggers (database/*.sql)\<close>

text \<open>
  A row of \<^verbatim>\<open>lottery_winners\<close> as \<^verbatim>\<open>create_lottery_winners.sql\<close> declares it:
  \<^verbatim>\<open>
    id UUID PRIMARY KEY DEFAULT uuid_generate_v4(),
    lottery_number INTEGER NOT NULL UNIQUE,
    ticket_sale_id UUID REFERENCES ticket_sales(id) ON DELETE SET NULL,
    prize_category VARCHAR(255) NOT NULL,
    prize_quantity INTEGER NOT NULL,
    winner_name VARCHAR(255) NOT NULL,
    winner_contact VARCHAR(20) NOT NULL,
    winner_address TEXT,
    diary_number INTEGER,
    registered_at TIMESTAMP WITH TIME ZONE DEFAULT NOW(),
    registered_by UUID REFERENCES auth.users(id) ON DELETE SET NULL,
    notes TEXT,
    created_at TIMESTAMP WITH TIME ZONE DEFAULT NOW(),
    updated_at TIMESTAMP WITH TIME ZONE DEFAULT NOW()
  \<close>
  The value of a column is an option, \<open>None\<close> being \<^verbatim>\<open>NULL\<close>: the row that a
  \<^verbatim>\<open>BEFORE\<close> trigger sees may hold \<^verbatim>\<open>NULL\<close> in any column, the constraints being
  checked after it. A UUID is a 128-bit word; an instant is identified by an integer. The
  columns \<^verbatim>\<open>id\<close> and \<^verbatim>\<open>notes\<close> are the fields \<open>id'\<close> and \<open>notes'\<close>.
\<close>

type_synonym uuid = "128 word"
type_synonym timestamp = int

record winner_row =
  id' :: "uuid option"
  lottery_number :: "int option"
  ticket_sale_id :: "uuid option"
  prize_category :: "string option"
  prize_quantity :: "int option"
  winner_name :: "string option"
  winner_contact :: "string option"
  winner_address :: "string option"
  diary_number :: "int option"
  registered_at :: "timestamp option"
  registered_by :: "uuid option"
  notes' :: "string option"
  created_at :: "timestamp option"
  updated_at :: "timestamp option"

text \<open>
  The database as far as statements on \<^verbatim>\<open>lottery_winners\<close> read it: the rows of the
  table, and the ids of the rows of \<^verbatim>\<open>ticket_sales\<close> and of \<^verbatim>\<open>auth.users\<close> that
  its two foreign keys refer to.
\<close>

record database =
  lottery_winners :: "winner_row list"
  ticket_sales_ids :: "uuid set"
  auth_users_ids :: "uuid set"

text \<open>
  What \<^verbatim>\<open>RAISE EXCEPTION\<close> raises in the two trigger functions: a required field that
  is null or empty (with the original value that the update trigger puts in its message;
  the insert trigger reports none), or a changed \<^verbatim>\<open>lottery_number\<close>, with the original
  and the attempted value.
\<close>

datatype rejection =
    MissingRequiredField string "string option"
  | ImmutableFieldViolation "int option" "int option"

text \<open>SQL \<^verbatim>\<open>TRIM(x)\<close>: the spaces at both ends of the string are removed.\<close>

definition sql_trim :: "string \<Rightarrow> string" where
  "sql_trim s =
     rev (dropWhile (\<lambda>c. c = CHR '' '') (rev (dropWhile (\<lambda>c. c = CHR '' '') s)))"

text \<open>The test \<^verbatim>\<open>x IS NULL OR LENGTH(TRIM(x)) = 0\<close>.\<close>

definition is_null_or_empty :: "string option \<Rightarrow> bool" where
  "is_null_or_empty x = (case x of None \<Rightarrow> True | Some s \<Rightarrow> length (sql_trim s) = 0)"

text \<open>
  The comparison \<^verbatim>\<open>a != b\<close> of SQL: unknown (\<open>None\<close>) when either side is
  \<^verbatim>\<open>NULL\<close>. An \<^verbatim>\<open>IF\<close> takes its branch only when the condition is true.
\<close>

definition sql_neq :: "'a option \<Rightarrow> 'a option \<Rightarrow> bool option" where
  "sql_neq a b = (case (a, b) of (Some x, Some y) \<Rightarrow> Some (x \<noteq> y) | _ \<Rightarrow> None)"

text \<open>
  The three tests that open both trigger functions all fail: none of \<^verbatim>\<open>winner_name\<close>,
  \<^verbatim>\<open>winner_contact\<close> and \<^verbatim>\<open>prize_category\<close> is null or empty.
\<close>

definition required_fields_present :: "winner_row \<Rightarrow> bool" where
  "required_fields_present new \<longleftrightarrow>
     \<not> is_null_or_empty (winner_name new) \<and> \<not> is_null_or_empty (winner_contact new)
     \<and> \<not> is_null_or_empty (prize_category new)"

text \<open>
  The assignments that end both trigger functions:
  \<^verbatim>\<open>
    NEW.winner_name = TRIM(NEW.winner_name);
    NEW.winner_contact = TRIM(NEW.winner_contact);
    NEW.prize_category = TRIM(NEW.prize_category);
    IF NEW.winner_address IS NOT NULL THEN
        NEW.winner_address = TRIM(NEW.winner_address);
    END IF;
    IF NEW.notes IS NOT NULL THEN
        NEW.notes = TRIM(NEW.notes);
    END IF;
  \<close>
\<close>

definition trim_text_fields :: "winner_row \<Rightarrow> winner_row" where
  "trim_text_fields new =
     new\<lparr>winner_name := map_option sql_trim (winner_name new),
         winner_contact := map_option sql_trim (winner_contact new),
         prize_category := map_option sql_trim (prize_category new),
         winner_address := map_option sql_trim (winner_address new),
         notes' := map_option sql_trim (notes' new)\<rparr>"

text \<open>
  \<^verbatim>\<open>validate_winner_data_on_insert()\<close>, the \<^verbatim>\<open>BEFORE INSERT\<close> trigger function of
  \<^verbatim>\<open>fix_lottery_winners_data_integrity.sql\<close>:
  \<^verbatim>\<open>
    IF NEW.winner_name IS NULL OR LENGTH(TRIM(NEW.winner_name)) = 0 THEN
        RAISE EXCEPTION 'winner_name is required and cannot be empty';
    END IF;
    IF NEW.winner_contact IS NULL OR LENGTH(TRIM(NEW.winner_contact)) = 0 THEN
        RAISE EXCEPTION 'winner_contact is required and cannot be empty';
    END IF;
    IF NEW.prize_category IS NULL OR LENGTH(TRIM(NEW.prize_category)) = 0 THEN
        RAISE EXCEPTION 'prize_category is required and cannot be empty';
    END IF;
    -- Trim whitespace from text fields
    ...
    RETURN NEW;
  \<close>
\<close>

definition validate_winner_data_on_insert :: "winner_row \<Rightarrow> rejection + winner_row" where
  "validate_winner_data_on_insert new =
     (if is_null_or_empty (winner_name new) then Inl (MissingRequiredField ''winner_name'' None)
      else if is_null_or_empty (winner_contact new)
        then Inl (MissingRequiredField ''winner_contact'' None)
      else if is_null_or_empty (prize_category new)
        then Inl (MissingRequiredField ''prize_category'' None)
      else Inr (trim_text_fields new))"

text \<open>
  \<^verbatim>\<open>prevent_winner_data_loss()\<close>, the \<^verbatim>\<open>BEFORE UPDATE\<close> trigger function of the same
  file:
  \<^verbatim>\<open>
    IF NEW.winner_name IS NULL OR LENGTH(TRIM(NEW.winner_name)) = 0 THEN
        RAISE EXCEPTION 'winner_name cannot be NULL or empty. Original value: %', OLD.winner_name;
    END IF;
    IF NEW.winner_contact IS NULL OR LENGTH(TRIM(NEW.winner_contact)) = 0 THEN
        RAISE EXCEPTION 'winner_contact cannot be NULL or empty. Original value: %', OLD.winner_contact;
    END IF;
    IF NEW.prize_category IS NULL OR LENGTH(TRIM(NEW.prize_category)) = 0 THEN
        RAISE EXCEPTION 'prize_category cannot be NULL or empty. Original value: %', OLD.prize_category;
    END IF;
    IF NEW.lottery_number != OLD.lottery_number THEN
        RAISE EXCEPTION 'lottery_number cannot be changed. Original value: %, Attempted value: %',
          OLD.lottery_number, NEW.lottery_number;
    END IF;
    -- Trim whitespace from text fields
    ...
    RETURN NEW;
  \<close>
  When either \<^verbatim>\<open>lottery_number\<close> is \<^verbatim>\<open>NULL\<close> the fourth condition is unknown and the
  exception is not raised.
\<close>

definition prevent_winner_data_loss :: "winner_row \<Rightarrow> winner_row \<Rightarrow> rejection + winner_row" where
  "prevent_winner_data_loss old new =
     (if is_null_or_empty (winner_name new)
        then Inl (MissingRequiredField ''winner_name'' (winner_name old))
      else if is_null_or_empty (winner_contact new)
        then Inl (MissingRequiredField ''winner_contact'' (winner_contact old))
      else if is_null_or_empty (prize_category new)
        then Inl (MissingRequiredField ''prize_category'' (prize_category old))
      else if sql_neq (lottery_number new) (lottery_number old) = Some True
        then Inl (ImmutableFieldViolation (lottery_number old) (lottery_number new))
      else Inr (trim_text_fields new))"

text \<open>
  \<^verbatim>\<open>update_lottery_winners_updated_at()\<close>, the \<^verbatim>\<open>BEFORE UPDATE\<close> trigger function of
  \<^verbatim>\<open>create_lottery_winners.sql\<close>; the instant \<^verbatim>\<open>NOW()\<close> is a parameter.
  \<^verbatim>\<open>
    NEW.updated_at = NOW();
    RETURN NEW;
  \<close>
\<close>

definition update_lottery_winners_updated_at :: "timestamp \<Rightarrow> winner_row \<Rightarrow> winner_row" where
  "update_lottery_winners_updated_at now new = new\<lparr>updated_at := Some now\<rparr>"

subsection \<open>Statements on the table\<close>

text \<open>
  The errors a statement on the table ends with, by SQLSTATE: a value that does not fit
  the type of its column (22003 for an \<^verbatim>\<open>INTEGER\<close>, 22001 for a \<^verbatim>\<open>VARCHAR(n)\<close>,
  22021 for a text with the character zero, 22P02 for a text that is no UUID), an exception
  of a trigger (P0001), a violated \<^verbatim>\<open>NOT NULL\<close> (23502), \<^verbatim>\<open>CHECK\<close> (23514),
  \<^verbatim>\<open>UNIQUE\<close> or primary key (23505) or foreign key (23503), each with the column or
  the constraint, or a request that failed before it reached the table.
\<close>

datatype db_error =
    NumericValueOutOfRange string
  | StringDataRightTruncation string
  | CharacterNotInRepertoire string
  | InvalidTextRepresentation string
  | TriggerException rejection
  | NotNullViolation string
  | CheckViolation string
  | UniqueViolation string
  | ForeignKeyViolation string
  | RequestFailed

text \<open>
  The values of the statement are converted to the types of their columns before any
  trigger runs. An \<^verbatim>\<open>INTEGER\<close> has 32 bits. A \<^verbatim>\<open>VARCHAR(n)\<close> takes a string of
  more than \<open>n\<close> characters only when the characters in excess are all spaces, and cuts
  them off. No text holds the character zero.
\<close>

definition coerce_integer :: "string \<Rightarrow> int option \<Rightarrow> db_error + int option" where
  "coerce_integer column v =
     (case v of
        None \<Rightarrow> Inr None
      | Some i \<Rightarrow>
          if - 2147483648 \<le> i \<and> i \<le> 2147483647 then Inr (Some i)
          else Inl (NumericValueOutOfRange column))"

definition coerce_text :: "string \<Rightarrow> string option \<Rightarrow> db_error + string option" where
  "coerce_text column v =
     (case v of
        None \<Rightarrow> Inr None
      | Some s \<Rightarrow>
          if CHR 0x00 \<in> set s then Inl (CharacterNotInRepertoire column) else Inr (Some s))"

definition coerce_varchar :: "nat \<Rightarrow> string \<Rightarrow> string option \<Rightarrow> db_error + string option" where
  "coerce_varchar n column v =
     (case v of
        None \<Rightarrow> Inr None
      | Some s \<Rightarrow>
          if CHR 0x00 \<in> set s then Inl (CharacterNotInRepertoire column)
          else if length s \<le> n then Inr (Some s)
          else if list_all (\<lambda>c. c = CHR '' '') (drop n s) then Inr (Some (take n s))
          else Inl (StringDataRightTruncation column))"

definition coerce_row :: "winner_row \<Rightarrow> db_error + winner_row" where
  "coerce_row new =
     (case coerce_integer ''lottery_number'' (lottery_number new) of
        Inl e \<Rightarrow> Inl e
      | Inr number \<Rightarrow>
     (case coerce_varchar 255 ''prize_category'' (prize_category new) of
        Inl e \<Rightarrow> Inl e
      | Inr category \<Rightarrow>
     (case coerce_integer ''prize_quantity'' (prize_quantity new) of
        Inl e \<Rightarrow> Inl e
      | Inr quantity \<Rightarrow>
     (case coerce_varchar 255 ''winner_name'' (winner_name new) of
        Inl e \<Rightarrow> Inl e
      | Inr name \<Rightarrow>
     (case coerce_varchar 20 ''winner_contact'' (winner_contact new) of
        Inl e \<Rightarrow> Inl e
      | Inr contact \<Rightarrow>
     (case coerce_text ''winner_address'' (winner_address new) of
        Inl e \<Rightarrow> Inl e
      | Inr address \<Rightarrow>
     (case coerce_integer ''diary_number'' (diary_number new) of
        Inl e \<Rightarrow> Inl e
      | Inr diary \<Rightarrow>
     (case coerce_text ''notes'' (notes' new) of
        Inl e \<Rightarrow> Inl e
      | Inr notes \<Rightarrow>
          Inr (new\<lparr>lottery_number := number, prize_category := category,
                    prize_quantity := quantity, winner_name := name,
                    winner_contact := contact, winner_address := address,
                    diary_number := diary, notes' := notes\<rparr>)))))))))"

text \<open>
  The constraints of a row, checked on the row that the \<^verbatim>\<open>BEFORE\<close> triggers return:
  \<^verbatim>\<open>NOT NULL\<close> of the table declaration (the primary key included) and
  \<^verbatim>\<open>CHECK (c IS NOT NULL AND LENGTH(TRIM(c)) > 0)\<close> for \<^verbatim>\<open>winner_name\<close>,
  \<^verbatim>\<open>winner_contact\<close> and \<^verbatim>\<open>prize_category\<close>, the columns in the order of
  the table and the checks in the order of their names.
\<close>

definition check_constraints :: "winner_row \<Rightarrow> db_error option" where
  "check_constraints r =
     (if id' r = None then Some (NotNullViolation ''id'')
      else if lottery_number r = None then Some (NotNullViolation ''lottery_number'')
      else if prize_category r = None then Some (NotNullViolation ''prize_category'')
      else if prize_quantity r = None then Some (NotNullViolation ''prize_quantity'')
      else if winner_name r = None then Some (NotNullViolation ''winner_name'')
      else if winner_contact r = None then Some (NotNullViolation ''winner_contact'')
      else if is_null_or_empty (prize_category r)
        then Some (CheckViolation ''lottery_winners_prize_category_not_empty'')
      else if is_null_or_empty (winner_contact r)
        then Some (CheckViolation ''lottery_winners_winner_contact_not_empty'')
      else if is_null_or_empty (winner_name r)
        then Some (CheckViolation ''lottery_winners_winner_name_not_empty'')
      else None)"

text \<open>
  The two foreign keys of a row: \<^verbatim>\<open>ticket_sale_id\<close> is \<^verbatim>\<open>NULL\<close> or the id of a row
  of \<^verbatim>\<open>ticket_sales\<close>, \<^verbatim>\<open>registered_by\<close> is \<^verbatim>\<open>NULL\<close> or the id of a row of
  \<^verbatim>\<open>auth.users\<close>.
\<close>

definition check_foreign_keys :: "database \<Rightarrow> winner_row \<Rightarrow> db_error option" where
  "check_foreign_keys db r =
     (if (case ticket_sale_id r of None \<Rightarrow> False | Some t \<Rightarrow> t \<notin> ticket_sales_ids db)
        then Some (ForeignKeyViolation ''lottery_winners_ticket_sale_id_fkey'')
      else if (case registered_by r of None \<Rightarrow> False | Some u \<Rightarrow> u \<notin> auth_users_ids db)
        then Some (ForeignKeyViolation ''lottery_winners_registered_by_fkey'')
      else None)"

text \<open>
  \<^verbatim>\<open>INSERT\<close> of one row: the conversion of the values, the \<^verbatim>\<open>BEFORE INSERT\<close>
  trigger, the constraints of the row, the primary key on \<^verbatim>\<open>id\<close> and the
  \<^verbatim>\<open>UNIQUE\<close> constraint on \<^verbatim>\<open>lottery_number\<close>, then the foreign keys. No step
  looks at the prize category of a row that the table already has.
\<close>

definition insert_winner :: "database \<Rightarrow> winner_row \<Rightarrow> db_error + database" where
  "insert_winner db new =
     (case coerce_row new of
        Inl e \<Rightarrow> Inl e
      | Inr converted \<Rightarrow>
     (case validate_winner_data_on_insert converted of
        Inl e \<Rightarrow> Inl (TriggerException e)
      | Inr new' \<Rightarrow>
     (case check_constraints new' of
        Some e \<Rightarrow> Inl e
      | None \<Rightarrow>
          if id' new' \<in> set (map id' (lottery_winners db))
            then Inl (UniqueViolation ''lottery_winners_pkey'')
          else if lottery_number new' \<in> set (map lottery_number (lottery_winners db))
            then Inl (UniqueViolation ''lottery_winners_lottery_number_key'')
          else
            (case check_foreign_keys db new' of
               Some e \<Rightarrow> Inl e
             | None \<Rightarrow> Inr (db\<lparr>lottery_winners := lottery_winners db @ [new']\<rparr>)))))"

text \<open>
  \<^verbatim>\<open>UPDATE\<close> of one row from \<open>old\<close> to the proposed \<open>new\<close>: the conversion of the
  values, the two \<^verbatim>\<open>BEFORE UPDATE\<close> triggers in the order of their names
  (\<^verbatim>\<open>prevent_lottery_winner_data_loss\<close>, then \<^verbatim>\<open>update_lottery_winners_updated_at\<close>),
  then the constraints of the row.
\<close>

definition before_update_row :: "timestamp \<Rightarrow> winner_row \<Rightarrow> winner_row \<Rightarrow> db_error + winner_row" where
  "before_update_row now old new =
     (case coerce_row new of
        Inl e \<Rightarrow> Inl e
      | Inr converted \<Rightarrow>
     (case prevent_winner_data_loss old converted of
        Inl e \<Rightarrow> Inl (TriggerException e)
      | Inr new1 \<Rightarrow>
          (let new2 = update_lottery_winners_updated_at now new1
           in case check_constraints new2 of Some e \<Rightarrow> Inl e | None \<Rightarrow> Inr new2)))"

text \<open>
  The rows of an \<^verbatim>\<open>UPDATE ... SET ... WHERE ...\<close>: \<open>selected\<close> is the \<^verbatim>\<open>WHERE\<close>
  clause and \<open>assign\<close> the \<^verbatim>\<open>SET\<close> clause. The first error ends the statement.
\<close>

fun update_rows ::
  "timestamp \<Rightarrow> (winner_row \<Rightarrow> bool) \<Rightarrow> (winner_row \<Rightarrow> winner_row) \<Rightarrow> winner_row list
   \<Rightarrow> db_error + winner_row list" where
  "update_rows now selected assign [] = Inr []"
| "update_rows now selected assign (r # rs) =
     (if selected r then
        (case before_update_row now r (assign r) of
           Inl e \<Rightarrow> Inl e
         | Inr r' \<Rightarrow>
             (case update_rows now selected assign rs of
                Inl e \<Rightarrow> Inl e
              | Inr rs' \<Rightarrow> Inr (r' # rs')))
      else
        (case update_rows now selected assign rs of
           Inl e \<Rightarrow> Inl e
         | Inr rs' \<Rightarrow> Inr (r # rs')))"

text \<open>The first violated foreign key among the rows of a table, if any.\<close>

definition first_foreign_key_error :: "database \<Rightarrow> winner_row list \<Rightarrow> db_error option" where
  "first_foreign_key_error db rows =
     (case List.map_filter (check_foreign_keys db) rows of [] \<Rightarrow> None | e # es \<Rightarrow> Some e)"

text \<open>
  The whole \<^verbatim>\<open>UPDATE\<close> statement, returning its result and the database after it. An
  error aborts the statement and the database is as before. The primary key, the
  \<^verbatim>\<open>UNIQUE\<close> constraint and the foreign keys are checked on the updated table: the
  table satisfying them before the statement, that is checking the rows written.
\<close>

definition update_winners ::
  "timestamp \<Rightarrow> (winner_row \<Rightarrow> bool) \<Rightarrow> (winner_row \<Rightarrow> winner_row) \<Rightarrow> database
   \<Rightarrow> (db_error + unit) \<times> database" where
  "update_winners now selected assign db =
     (case update_rows now selected assign (lottery_winners db) of
        Inl e \<Rightarrow> (Inl e, db)
      | Inr rows' \<Rightarrow>
          if \<not> distinct (map id' rows')
            then (Inl (UniqueViolation ''lottery_winners_pkey''), db)
          else if \<not> distinct (map lottery_number rows')
            then (Inl (UniqueViolation ''lottery_winners_lottery_number_key''), db)
          else
            (case first_foreign_key_error db rows' of
               Some e \<Rightarrow> (Inl e, db)
             | None \<Rightarrow> (Inr (), db\<lparr>lottery_winners := rows'\<rparr>)))"

section \<open>Winner registration (src/pages/Search.tsx)\<close>

text \<open>The prize categories and their quantities, \<^verbatim>\<open>PRIZE_CATEGORIES\<close> of supabase.ts.\<close>

definition PRIZE_CATEGORIES :: "(string \<times> int) list" where
  "PRIZE_CATEGORIES =
     [(''THAR CAR'', 1), (''SWIFT CAR'', 1), (''E-Rickshaw'', 1), (''Bullet Bike'', 1),
      (''HF delux Bike'', 5), (''Electric Bike'', 3), (''AC 1Ton'', 1), (''Laptop'', 3),
      (''32 Inch LED TV'', 5), (''Fridge'', 5), (''Washing Machine'', 5),
      (''Sewing Machine'', 5), (''Sports Cycle'', 5), (''5G Mobile'', 11), (''Cooler'', 11),
      (''Child EV Bike'', 10), (''Home Theater'', 5), (''Electric Water Heater'', 5),
      (''Battery Spray Pump'', 27), (''Mixer'', 10), (''Induction stove'', 10),
      (''Ceiling Fan'', 10), (''Smart Watch'', 11), (''Gas Stove'', 27), (''Helmet'', 54),
      (''Silver Coin'', 54), (''Wall Clock'', 108), (''Photo Frame'', 108)]"

text \<open>
  The joined \<^verbatim>\<open>Diary\<close> of a ticket sale and the \<^verbatim>\<open>TicketSale\<close> itself, with the fields
  that registration reads. A field that the code tests for being absent is an option.
  The fields \<^verbatim>\<open>id\<close> and \<^verbatim>\<open>lottery_number\<close> of a ticket sale are \<open>ticket_id\<close> and
  \<open>ticket_lottery_number\<close>.
\<close>

record Diary =
  diary_id :: uuid
  diary_diary_number :: int
  ticket_start_range :: int
  ticket_end_range :: int
  total_tickets :: int

record TicketSale =
  ticket_id :: uuid
  ticket_lottery_number :: int
  purchaser_name :: "string option"
  purchaser_contact :: "string option"
  purchaser_address :: "string option"
  diary :: "Diary option"

text \<open>
  The state of the Search page that registration reads and writes:
  \<^verbatim>\<open>existingWinners\<close> (a \<^verbatim>\<open>Set<number>\<close>), \<^verbatim>\<open>selectedPrize\<close> (prize category by
  ticket id) and \<^verbatim>\<open>registeringWinner\<close>.
\<close>

record search_state =
  existingWinners :: "int set"
  selectedPrize :: "uuid \<rightharpoonup> string"
  registeringWinner :: "uuid option"

text \<open>
  What a registration attempt tells the user (the toast), with the stored row on success.
  \<open>AlreadyWon\<close> is the message of both the check against \<^verbatim>\<open>existingWinners\<close> and the
  unique-constraint error 23505; \<open>QuantityExceeded\<close> is
  \<^verbatim>\<open>No ${selectedPrizeCategory} prizes remaining!\<close>.
\<close>

datatype registration_outcome =
    PleaseSelectPrize
  | AlreadyWon int
  | QuantityExceeded string
  | PurchaserNameMissing
  | PurchaserContactMissing
  | RegistrationFailed db_error
  | WinnerRegistered winner_row

text \<open>\<^verbatim>\<open>String.prototype.trim\<close>: white space at both ends is removed.\<close>

definition js_trim :: "string \<Rightarrow> string" where
  "js_trim s = rev (dropWhile isWhiteSpace (rev (dropWhile isWhiteSpace s)))"

text \<open>
  \<^verbatim>\<open>
  const checkIfAlreadyWon = (lotteryNumber: number): boolean => {
    return existingWinners.has(lotteryNumber);
  };
  const getPrizeQuantity = (prizeName: string): number => {
    const prize = PRIZE_CATEGORIES.find(p => p.name === prizeName);
    return prize ? prize.quantity : 0;
  };
  \<close>
\<close>

definition checkIfAlreadyWon :: "search_state \<Rightarrow> int \<Rightarrow> bool" where
  "checkIfAlreadyWon st lotteryNumber \<longleftrightarrow> lotteryNumber \<in> existingWinners st"

definition getPrizeQuantity :: "string \<Rightarrow> int" where
  "getPrizeQuantity prizeName =
     (case find (\<lambda>p. fst p = prizeName) PRIZE_CATEGORIES of
        Some prize \<Rightarrow> snd prize
      | None \<Rightarrow> 0)"

text \<open>
  \<^verbatim>\<open>
  const getRemainingQuantity = async (prizeName: string): Promise<number> => {
    try {
      const { data, error } = await supabase
        .from('lottery_winners').select('id').eq('prize_category', prizeName);
      if (error) throw error;
      const totalQuantity = getPrizeQuantity(prizeName);
      const usedQuantity = data?.length || 0;
      return totalQuantity - usedQuantity;
    } catch (error) {
      return 0;
    }
  };
  \<close>
  The argument \<open>read\<close> is what the table holds when the query runs, or the error of the
  request.
\<close>

definition select_eq_prize_category :: "winner_row list \<Rightarrow> string \<Rightarrow> winner_row list" where
  "select_eq_prize_category rows prizeName =
     filter (\<lambda>r. prize_category r = Some prizeName) rows"

definition getRemainingQuantity :: "db_error + winner_row list \<Rightarrow> string \<Rightarrow> int" where
  "getRemainingQuantity read prizeName =
     (case read of
        Inl error \<Rightarrow> 0
      | Inr rows \<Rightarrow>
          (let totalQuantity = getPrizeQuantity prizeName;
               usedQuantity = int (length (select_eq_prize_category rows prizeName))
           in totalQuantity - usedQuantity))"

text \<open>
  The test \<^verbatim>\<open>!s || s.trim().length === 0\<close> on a field of the ticket.
\<close>

definition missing_or_blank :: "string option \<Rightarrow> bool" where
  "missing_or_blank x = (case x of None \<Rightarrow> True | Some s \<Rightarrow> s = [] \<or> length (js_trim s) = 0)"

text \<open>
  The row that \<^verbatim>\<open>registerWinner\<close> sends to \<^verbatim>\<open>insert\<close>, completed with the defaults
  of the table (\<^verbatim>\<open>uuid_generate_v4()\<close> for the id, \<^verbatim>\<open>NOW()\<close> for the three instants,
  \<^verbatim>\<open>NULL\<close> for the columns that are not sent):
  \<^verbatim>\<open>
      const prizeQuantity = getPrizeQuantity(selectedPrizeCategory);
      const diaryNumber = ticket.diary ? getDiaryFromLotteryNumber(lotteryNumber) : undefined;
      ... .insert([{
          lottery_number: lotteryNumber,
          ticket_sale_id: ticket.id,
          prize_category: selectedPrizeCategory.trim(),
          prize_quantity: prizeQuantity,
          winner_name: ticket.purchaser_name.trim(),
          winner_contact: ticket.purchaser_contact.trim(),
          winner_address: ticket.purchaser_address?.trim() || null,
          diary_number: diaryNumber
        }])
  \<close>
\<close>

definition registration_row :: "TicketSale \<Rightarrow> string \<Rightarrow> uuid \<Rightarrow> timestamp \<Rightarrow> winner_row" where
  "registration_row ticket selectedPrizeCategory new_id now =
     (let lotteryNumber = ticket_lottery_number ticket;
          prizeQuantity = getPrizeQuantity selectedPrizeCategory;
          diaryNumber = (if diary ticket \<noteq> None
                         then Some (getDiaryFromLotteryNumber lotteryNumber) else None)
      in \<lparr>id' = Some new_id,
          lottery_number = Some lotteryNumber,
          ticket_sale_id = Some (ticket_id ticket),
          prize_category = Some (js_trim selectedPrizeCategory),
          prize_quantity = Some prizeQuantity,
          winner_name = map_option js_trim (purchaser_name ticket),
          winner_contact = map_option js_trim (purchaser_contact ticket),
          winner_address =
            (case purchaser_address ticket of
               None \<Rightarrow> None
             | Some a \<Rightarrow> if js_trim a = [] then None else Some (js_trim a)),
          diary_number = diaryNumber,
          registered_at = Some now,
          registered_by = None,
          notes' = None,
          created_at = Some now,
          updated_at = Some now\<rparr>)"

text \<open>
  \<^verbatim>\<open>registerWinner\<close>. The arguments are the page state, the ticket, what the table
  holds when the quantity is read (\<open>read\<close>), the database when the insert runs (\<open>db\<close>;
  other clients may have written in between), and the id and the instant that the defaults give
  the new row. The result is the message, the database and the page state afterwards.
  \<^verbatim>\<open>
    const lotteryNumber = ticket.lottery_number;
    const selectedPrizeCategory = selectedPrize[ticket.id];
    if (!selectedPrizeCategory) { toast.error('Please select a prize category'); return; }
    if (checkIfAlreadyWon(lotteryNumber)) { toast.error(`... has already won a prize!`); return; }
    const remaining = await getRemainingQuantity(selectedPrizeCategory);
    if (remaining <= 0) { toast.error(`No ${selectedPrizeCategory} prizes remaining!`); return; }
    if (!ticket.purchaser_name || ticket.purchaser_name.trim().length === 0) { ...; return; }
    if (!ticket.purchaser_contact || ticket.purchaser_contact.trim().length === 0) { ...; return; }
    try {
      setRegisteringWinner(ticket.id);
      ... insert ... .select().single();
      if (error) {
        if (error.code === '23505') {
          toast.error(`... has already won a prize!`);
          const { data: winners } = await supabase.from('lottery_winners').select('lottery_number');
          if (winners) { setExistingWinners(new Set(winners.map(w => w.lottery_number))); }
        } else { throw error; }
        return;
      }
      setExistingWinners(prev => new Set(prev).add(lotteryNumber));
      setSelectedPrize(prev => { const newState = { ...prev }; delete newState[ticket.id]; return newState; });
      toast.success(...);
    } catch (error: any) {
      toast.error(`Failed to register winner: ...`);
    } finally {
      setRegisteringWinner(null);
    }
  \<close>
\<close>

definition registerWinner ::
  "search_state \<Rightarrow> TicketSale \<Rightarrow> db_error + winner_row list \<Rightarrow> database \<Rightarrow> uuid
   \<Rightarrow> timestamp \<Rightarrow> registration_outcome \<times> database \<times> search_state" where
  "registerWinner st ticket read db new_id now =
     (let lotteryNumber = ticket_lottery_number ticket
      in case selectedPrize st (ticket_id ticket) of
           None \<Rightarrow> (PleaseSelectPrize, db, st)
         | Some selectedPrizeCategory \<Rightarrow>
             if selectedPrizeCategory = [] then (PleaseSelectPrize, db, st)
             else if checkIfAlreadyWon st lotteryNumber then (AlreadyWon lotteryNumber, db, st)
             else if getRemainingQuantity read selectedPrizeCategory \<le> 0
               then (QuantityExceeded selectedPrizeCategory, db, st)
             else if missing_or_blank (purchaser_name ticket) then (PurchaserNameMissing, db, st)
             else if missing_or_blank (purchaser_contact ticket)
               then (PurchaserContactMissing, db, st)
             else
               (case insert_winner db
                       (registration_row ticket selectedPrizeCategory new_id now) of
                  Inl (UniqueViolation c) \<Rightarrow>
                    (AlreadyWon lotteryNumber, db,
                     st\<lparr>existingWinners :=
                          set (List.map_filter lottery_number (lottery_winners db)),
                        registeringWinner := None\<rparr>)
                | Inl e \<Rightarrow> (RegistrationFailed e, db, st\<lparr>registeringWinner := None\<rparr>)
                | Inr db' \<Rightarrow>
                    (WinnerRegistered (last (lottery_winners db')), db',
                     st\<lparr>existingWinners := insert lotteryNumber (existingWinners st),
                        selectedPrize := (selectedPrize st)(ticket_id ticket := None),
                        registeringWinner := None\<rparr>)))"

section \<open>Editing a winner (src/pages/Winners.tsx)\<close>

text \<open>
  A field of the object sent to \<^verbatim>\<open>update\<close>: \<^verbatim>\<open>undefined\<close> (the key is left out of the
  request and the column keeps its value), \<^verbatim>\<open>null\<close>, or a string.
\<close>

datatype json_text = Undefined | Null | Text string

text \<open>
  The argument \<^verbatim>\<open>updatedData: Partial<LotteryWinner>\<close> of \<^verbatim>\<open>handleSaveEdit\<close>: every
  field of a winner, each possibly absent.
\<close>

record partial_winner =
  upd_id :: "uuid option"
  upd_lottery_number :: "int option"
  upd_ticket_sale_id :: "uuid option"
  upd_prize_category :: json_text
  upd_prize_quantity :: "int option"
  upd_winner_name :: json_text
  upd_winner_contact :: json_text
  upd_winner_address :: json_text
  upd_diary_number :: "int option"
  upd_registered_at :: "timestamp option"
  upd_registered_by :: "uuid option"
  upd_notes :: json_text
  upd_created_at :: "timestamp option"
  upd_updated_at :: "timestamp option"

definition set_column :: "json_text \<Rightarrow> string option \<Rightarrow> string option" where
  "set_column v current = (case v of Undefined \<Rightarrow> current | Null \<Rightarrow> None | Text s \<Rightarrow> Some s)"

text \<open>
  The \<^verbatim>\<open>SET\<close> clause of the request of \<^verbatim>\<open>handleSaveEdit\<close>:
  \<^verbatim>\<open>
        .update({
          prize_category: updatedData.prize_category,
          winner_name: updatedData.winner_name,
          winner_contact: updatedData.winner_contact,
          winner_address: updatedData.winner_address,
          notes: updatedData.notes
        })
  \<close>
\<close>

definition edit_assignment :: "partial_winner \<Rightarrow> winner_row \<Rightarrow> winner_row" where
  "edit_assignment updatedData r =
     r\<lparr>prize_category := set_column (upd_prize_category updatedData) (prize_category r),
       winner_name := set_column (upd_winner_name updatedData) (winner_name r),
       winner_contact := set_column (upd_winner_contact updatedData) (winner_contact r),
       winner_address := set_column (upd_winner_address updatedData) (winner_address r),
       notes' := set_column (upd_notes updatedData) (notes' r)\<rparr>"

datatype edit_outcome = NothingToEdit | UpdateFailed db_error | UpdatedSuccessfully

text \<open>
  \<^verbatim>\<open>
  const handleSaveEdit = async (updatedData: Partial<LotteryWinner>) => {
    if (!editingWinner) return;
    try {
      const { error } = await supabase.from('lottery_winners')
        .update({ ... }).eq('id', editingWinner.id);
      if (error) throw error;
      toast.success('Winner entry updated successfully');
      ...
    } catch (error) {
      toast.error('Failed to update winner entry');
    }
  };
  \<close>
  The arguments are \<^verbatim>\<open>editingWinner\<close> of the page state, \<^verbatim>\<open>updatedData\<close>, the
  database and the instant of the update; the result is the message and the database
  afterwards. The filter \<^verbatim>\<open>.eq('id', x)\<close> compares the column with the text of
  \<open>x\<close>, which is no UUID when \<open>x\<close> is null.
\<close>

definition handleSaveEdit ::
  "winner_row option \<Rightarrow> partial_winner \<Rightarrow> database \<Rightarrow> timestamp
   \<Rightarrow> edit_outcome \<times> database" where
  "handleSaveEdit editingWinner updatedData db now =
     (case editingWinner of
        None \<Rightarrow> (NothingToEdit, db)
      | Some w \<Rightarrow>
          (case id' w of
             None \<Rightarrow> (UpdateFailed (InvalidTextRepresentation ''id''), db)
           | Some wid \<Rightarrow>
               (case update_winners now (\<lambda>r. id' r = Some wid)
                       (edit_assignment updatedData) db of
                  (Inl error, db') \<Rightarrow> (UpdateFailed error, db')
                | (Inr u, db') \<Rightarrow> (UpdatedSuccessfully, db'))))"

section \<open>Sample data\<close>

text \<open>
  A row as a client sends it to \<^verbatim>\<open>INSERT\<close>, the row stored for it, the same row
  with a \<^verbatim>\<open>winner_name\<close> that is one tab character, and an argument of
  \<^verbatim>\<open>handleSaveEdit\<close> that names other fields besides the five it may change.
\<close>

definition john_input :: winner_row where
  "john_input = \<lparr>id' = Some 1105, lottery_number = Some 105, ticket_sale_id = Some 105,
      prize_category = Some ''Laptop'', prize_quantity = Some 3,
      winner_name = Some ''  John Doe  '', winner_contact = Some ''9876543210'',
      winner_address = Some '' 12 Main Road '', diary_number = Some 5,
      registered_at = Some 1, registered_by = None, notes' = None,
      created_at = Some 1, updated_at = Some 1\<rparr>"

definition john :: winner_row where
  "john = \<lparr>id' = Some 1105, lottery_number = Some 105, ticket_sale_id = Some 105,
      prize_category = Some ''Laptop'', prize_quantity = Some 3,
      winner_name = Some ''John Doe'', winner_contact = Some ''9876543210'',
      winner_address = Some ''12 Main Road'', diary_number = Some 5,
      registered_at = Some 1, registered_by = None, notes' = None,
      created_at = Some 1, updated_at = Some 1\<rparr>"

definition tab_named :: winner_row where
  "tab_named = \<lparr>id' = Some 1105, lottery_number = Some 105, ticket_sale_id = Some 105,
      prize_category = Some ''Laptop'', prize_quantity = Some 3,
      winner_name = Some [CHR 0x09], winner_contact = Some ''9876543210'',
      winner_address = None, diary_number = Some 5,
      registered_at = Some 1, registered_by = None, notes' = None,
      created_at = Some 1, updated_at = Some 1\<rparr>"

definition john_edit :: partial_winner where
  "john_edit = \<lparr>upd_id = Some 1105, upd_lottery_number = Some 106,
      upd_ticket_sale_id = None, upd_prize_category = Text ''Fridge'',
      upd_prize_quantity = Some 99, upd_winner_name = Text ''John  Doe '',
      upd_winner_contact = Text ''9876543210'', upd_winner_address = Null,
      upd_diary_number = Some 7, upd_registered_at = None, upd_registered_by = None,
      upd_notes = Undefined, upd_created_at = None, upd_updated_at = None\<rparr>"

text \<open>
  A winner of the only THAR CAR, a sold ticket, the row that \<^verbatim>\<open>registerWinner\<close> sends
  for it with the id 1007 at the instant 2, a state of the Search page in which THAR CAR is
  selected for the ticket, and three databases: one with an empty table, one whose table
  holds the THAR CAR winner, one whose table holds the stored row above.
\<close>

definition thar_winner :: winner_row where
  "thar_winner = \<lparr>id' = Some 1012, lottery_number = Some 12, ticket_sale_id = Some 12,
      prize_category = Some ''THAR CAR'', prize_quantity = Some 1,
      winner_name = Some ''Ravi'', winner_contact = Some ''9000000000'',
      winner_address = None, diary_number = Some 1,
      registered_at = Some 1, registered_by = None, notes' = None,
      created_at = Some 1, updated_at = Some 1\<rparr>"

definition ticket_7 :: TicketSale where
  "ticket_7 = \<lparr>ticket_id = 7, ticket_lottery_number = 7,
      purchaser_name = Some ''Asha'', purchaser_contact = Some ''9000000001'',
      purchaser_address = None,
      diary = Some \<lparr>diary_id = 1, diary_diary_number = 1, ticket_start_range = 1,
                     ticket_end_range = 22, total_tickets = 22\<rparr>\<rparr>"

definition asha_row :: winner_row where
  "asha_row = \<lparr>id' = Some 1007, lottery_number = Some 7, ticket_sale_id = Some 7,
      prize_category = Some ''THAR CAR'', prize_quantity = Some 1,
      winner_name = Some ''Asha'', winner_contact = Some ''9000000001'',
      winner_address = None, diary_number = Some 1,
      registered_at = Some 2, registered_by = None, notes' = None,
      created_at = Some 2, updated_at = Some 2\<rparr>"

definition search_page :: search_state where
  "search_page = \<lparr>existingWinners = {12}, selectedPrize = [7 \<mapsto> ''THAR CAR''],
      registeringWinner = None\<rparr>"

definition empty_db :: database where
  "empty_db = \<lparr>lottery_winners = [], ticket_sales_ids = {7, 12, 105},
      auth_users_ids = {}\<rparr>"

definition thar_db :: database where
  "thar_db = \<lparr>lottery_winners = [thar_winner], ticket_sales_ids = {7, 12, 105},
      auth_users_ids = {}\<rparr>"

definition john_db :: database where
  "john_db = \<lparr>lottery_winners = [john], ticket_sales_ids = {7, 12, 105},
      auth_users_ids = {}\<rparr>"

section \<open>Lemmas on the numbering engine\<close>

subsection \<open>Arithmetic of the ceiling\<close>

lemma scale_22_lower: "(c::real) - 1 < x / 22 \<Longrightarrow> 22 * (c - 1) < x"
  by (simp add: field_simps)

lemma scale_22_upper: "x / 22 \<le> (c::real) \<Longrightarrow> x \<le> 22 * c"
  by linarith

lemma ceiling_div_22_bounds:
  shows "22 * (\<lceil>real_of_int n / 22\<rceil> - 1) < n" and "n \<le> 22 * \<lceil>real_of_int n / 22\<rceil>"
proof -
  let ?c = "\<lceil>real_of_int n / 22\<rceil>"
  have lo: "real_of_int ?c - 1 < real_of_int n / 22"
    by (rule ceiling_correct [THEN conjunct1])
  have hi: "real_of_int n / 22 \<le> real_of_int ?c"
    by (rule le_of_int_ceiling)
  have "real_of_int (22 * (?c - 1)) = 22 * (real_of_int ?c - 1)"
    by simp
  also have "\<dots> < real_of_int n"
    using lo by (rule scale_22_lower)
  finally show "22 * (?c - 1) < n"
    by (simp only: of_int_less_iff)
  have "real_of_int n \<le> 22 * real_of_int ?c"
    using hi by (rule scale_22_upper)
  also have "\<dots> = real_of_int (22 * ?c)"
    by simp
  finally show "n \<le> 22 * ?c"
    by (simp only: of_int_le_iff)
qed

lemma ceiling_div_22_unique:
  assumes "22 * (d - 1) < n" and "n \<le> 22 * d"
  shows "\<lceil>real_of_int n / 22\<rceil> = d"
proof (rule ceiling_unique)
  have "real_of_int (22 * (d - 1)) < real_of_int n"
    using assms(1) by (simp only: of_int_less_iff)
  then show "real_of_int d - 1 < real_of_int n / 22"
    by simp
  have "real_of_int n \<le> real_of_int (22 * d)"
    using assms(2) by (simp only: of_int_le_iff)
  then show "real_of_int n / 22 \<le> real_of_int d"
    by simp
qed

lemma ceiling_div_22_mono:
  assumes "n1 \<le> n2"
  shows "\<lceil>real_of_int n1 / 22\<rceil> \<le> \<lceil>real_of_int n2 / 22\<rceil>"
  using assms by (intro ceiling_mono divide_right_mono) simp_all

lemma getDiary_general:
  assumes "n \<le> 39996"
  shows "22 * (getDiaryFromLotteryNumber n - 1) < n" and "n \<le> 22 * getDiaryFromLotteryNumber n"
  using assms ceiling_div_22_bounds [of n] by (simp_all only: getDiaryFromLotteryNumber_def if_True)

lemma getDiary_general_le_1818:
  assumes "n \<le> 39996"
  shows "getDiaryFromLotteryNumber n \<le> 1818"
proof (rule ccontr)
  assume "\<not> getDiaryFromLotteryNumber n \<le> 1818"
  then have "1819 \<le> getDiaryFromLotteryNumber n"
    by simp
  then have "22 * 1818 \<le> 22 * (getDiaryFromLotteryNumber n - 1)"
    by simp
  with assms getDiary_general(1) [OF assms] show False
    by simp
qed

lemma getDiary_last:
  assumes "39996 < n"
  shows "getDiaryFromLotteryNumber n = 1819"
  using assms by (simp add: getDiaryFromLotteryNumber_def)

lemma getDiary_positive:
  assumes "1 \<le> n"
  shows "1 \<le> getDiaryFromLotteryNumber n"
proof (cases "n \<le> 39996")
  case True
  have "0 < 22 * getDiaryFromLotteryNumber n"
    using assms getDiary_general(2) [OF True] by linarith
  then show ?thesis by simp
next
  case False
  then show ?thesis by (simp add: getDiaryFromLotteryNumber_def)
qed

lemma getDiary_le_1819: "getDiaryFromLotteryNumber n \<le> 1819"
proof (cases "n \<le> 39996")
  case True
  then show ?thesis using getDiary_general_le_1818 [of n] by simp
next
  case False
  then show ?thesis by (simp add: getDiary_last)
qed

lemma range_contains_own_ticket:
  assumes "n \<le> 39999"
  shows "start (getTicketRangeForDiary (getDiaryFromLotteryNumber n)) \<le> n
       \<and> n \<le> end' (getTicketRangeForDiary (getDiaryFromLotteryNumber n))"
proof (cases "n \<le> 39996")
  case True
  have "getDiaryFromLotteryNumber n \<noteq> 1819"
    using getDiary_general_le_1818 [OF True] by simp
  then show ?thesis
    using getDiary_general [OF True] by (simp add: getTicketRangeForDiary_def)
next
  case False
  then have "getDiaryFromLotteryNumber n = 1819"
    by (simp add: getDiary_last)
  with False assms show ?thesis
    by (simp add: getTicketRangeForDiary_def)
qed

lemma ticket_in_range_bounds:
  assumes "1 \<le> d" and "d \<le> 1819" and "validateLotteryNumberForDiary n d"
  shows "1 \<le> n \<and> n \<le> 39999"
  using assms
  by (auto simp add: validateLotteryNumberForDiary_def getTicketRangeForDiary_def Let_def
      split: if_splits)

lemma ticket_in_range_diary:
  assumes "1 \<le> d" and "d \<le> 1819" and "validateLotteryNumberForDiary n d"
  shows "getDiaryFromLotteryNumber n = d"
proof (cases "d = 1819")
  case True
  with assms(3) have "39996 < n"
    by (simp add: validateLotteryNumberForDiary_def getTicketRangeForDiary_def)
  with True show ?thesis by (simp add: getDiary_last)
next
  case False
  with assms have bounds: "22 * (d - 1) < n" "n \<le> 22 * d" and "d \<le> 1818"
    by (simp_all add: validateLotteryNumberForDiary_def getTicketRangeForDiary_def)
  then have "n \<le> 39996" by linarith
  then show ?thesis
    using ceiling_div_22_unique [OF bounds] by (simp add: getDiaryFromLotteryNumber_def)
qed

section \<open>Properties of the numbering engine\<close>

text \<open>
  Claim C1. For every integer \<open>n\<close> in \<open>[1, 39999]\<close> the range returned by
  \<open>getTicketRangeForDiary (getDiaryFromLotteryNumber n)\<close> contains \<open>n\<close>, and
  \<open>validateLotteryNumberForDiary n (getDiaryFromLotteryNumber n)\<close> returns true.
\<close>

theorem range_of_own_diary_contains_ticket:
  assumes "1 \<le> n" and "n \<le> 39999"
  shows "start (getTicketRangeForDiary (getDiaryFromLotteryNumber n)) \<le> n
       \<and> n \<le> end' (getTicketRangeForDiary (getDiaryFromLotteryNumber n))
       \<and> validateLotteryNumberForDiary n (getDiaryFromLotteryNumber n)"
  using range_contains_own_ticket [OF assms(2)]
  by (simp add: validateLotteryNumberForDiary_def Let_def)

theorem range_of_own_diary_contains_ticket_witness:
  "getDiaryFromLotteryNumber 39999 = 1819
   \<and> getTicketRangeForDiary 1819 = \<lparr>start = 39997, end' = 39999\<rparr>
   \<and> validateLotteryNumberForDiary 39999 (getDiaryFromLotteryNumber 39999)"
  using range_of_own_diary_contains_ticket [of 39999]
  by (simp add: getDiaryFromLotteryNumber_def getTicketRangeForDiary_def)

text \<open>
  Claim C4. The ranges \<open>getTicketRangeForDiary d\<close> for \<open>d\<close> in \<open>[1, 1819]\<close> partition
  \<open>[1, 39999]\<close>: a ticket number lies in the range of some diary of \<open>[1, 1819]\<close> exactly
  when it is in \<open>[1, 39999]\<close> (the union), a ticket number lies in the range of at most
  one diary (no overlap), the range of diary \<open>d + 1\<close> starts right after the end of the
  range of diary \<open>d\<close> (contiguity), every diary of \<open>[1, 1818]\<close> holds exactly 22
  tickets, and diary 1819 has the range \<open>(39997, 39999)\<close>, that is 3 tickets, so that it
  is the only diary with fewer than 22.
\<close>

theorem ticket_ranges_partition:
  "((\<exists>d. 1 \<le> d \<and> d \<le> 1819 \<and> validateLotteryNumberForDiary n d) \<longleftrightarrow> (1 \<le> n \<and> n \<le> 39999))
   \<and> (1 \<le> d1 \<and> d1 \<le> 1819 \<and> 1 \<le> d2 \<and> d2 \<le> 1819
        \<and> validateLotteryNumberForDiary m d1 \<and> validateLotteryNumberForDiary m d2
        \<longrightarrow> d1 = d2)
   \<and> (1 \<le> d \<and> d \<le> 1818
        \<longrightarrow> start (getTicketRangeForDiary (d + 1)) = end' (getTicketRangeForDiary d) + 1)
   \<and> (1 \<le> d \<and> d \<le> 1818
        \<longrightarrow> end' (getTicketRangeForDiary d) - start (getTicketRangeForDiary d) + 1 = 22)
   \<and> getTicketRangeForDiary 1819 = \<lparr>start = 39997, end' = 39999\<rparr>
   \<and> (1 \<le> d \<and> d \<le> 1819
        \<longrightarrow> (end' (getTicketRangeForDiary d) - start (getTicketRangeForDiary d) + 1 < 22
             \<longleftrightarrow> d = 1819))"
proof -
  have union: "(\<exists>d. 1 \<le> d \<and> d \<le> 1819 \<and> validateLotteryNumberForDiary n d)
               \<longleftrightarrow> (1 \<le> n \<and> n \<le> 39999)"
  proof
    assume "\<exists>d. 1 \<le> d \<and> d \<le> 1819 \<and> validateLotteryNumberForDiary n d"
    then show "1 \<le> n \<and> n \<le> 39999"
      using ticket_in_range_bounds by blast
  next
    assume n: "1 \<le> n \<and> n \<le> 39999"
    let ?d = "getDiaryFromLotteryNumber n"
    have "1 \<le> ?d"
      using n by (simp add: getDiary_positive)
    moreover have "?d \<le> 1819"
      using getDiary_le_1819 .
    moreover have "validateLotteryNumberForDiary n ?d"
      using n range_contains_own_ticket [of n]
      by (simp add: validateLotteryNumberForDiary_def Let_def)
    ultimately show "\<exists>d. 1 \<le> d \<and> d \<le> 1819 \<and> validateLotteryNumberForDiary n d"
      by blast
  qed
  have disjoint: "1 \<le> d1 \<and> d1 \<le> 1819 \<and> 1 \<le> d2 \<and> d2 \<le> 1819
        \<and> validateLotteryNumberForDiary m d1 \<and> validateLotteryNumberForDiary m d2
        \<longrightarrow> d1 = d2"
    using ticket_in_range_diary [of d1 m] ticket_in_range_diary [of d2 m] by auto
  have contiguous: "1 \<le> d \<and> d \<le> 1818
        \<longrightarrow> start (getTicketRangeForDiary (d + 1)) = end' (getTicketRangeForDiary d) + 1"
    by (simp add: getTicketRangeForDiary_def)
  have full: "1 \<le> d \<and> d \<le> 1818
        \<longrightarrow> end' (getTicketRangeForDiary d) - start (getTicketRangeForDiary d) + 1 = 22"
    by (simp add: getTicketRangeForDiary_def)
  have last: "getTicketRangeForDiary 1819 = \<lparr>start = 39997, end' = 39999\<rparr>"
    by (simp add: getTicketRangeForDiary_def)
  have only_short: "1 \<le> d \<and> d \<le> 1819
        \<longrightarrow> (end' (getTicketRangeForDiary d) - start (getTicketRangeForDiary d) + 1 < 22
             \<longleftrightarrow> d = 1819)"
    by (simp add: getTicketRangeForDiary_def)
  from union disjoint contiguous full last only_short show ?thesis
    by (intro conjI)
qed

theorem ticket_ranges_partition_witness:
  "validateLotteryNumberForDiary 39996 1818
   \<and> \<not> validateLotteryNumberForDiary 39996 1819
   \<and> \<not> (\<exists>d. 1 \<le> d \<and> d \<le> 1819 \<and> validateLotteryNumberForDiary 40000 d)
   \<and> start (getTicketRangeForDiary (1818 + 1)) = end' (getTicketRangeForDiary 1818) + 1
   \<and> end' (getTicketRangeForDiary 1818) - start (getTicketRangeForDiary 1818) + 1 = 22
   \<and> end' (getTicketRangeForDiary 1819) - start (getTicketRangeForDiary 1819) + 1 = 3"
  using ticket_ranges_partition [of 40000 1818 1819 39996 1818]
  by (simp add: validateLotteryNumberForDiary_def getTicketRangeForDiary_def)

text \<open>
  Claim C6. \<open>getDiaryFromLotteryNumber\<close> is monotonic non-decreasing: for all integers
  \<open>n1 < n2\<close>, \<open>getDiaryFromLotteryNumber n1 \<le> getDiaryFromLotteryNumber n2\<close>; and for
  every \<open>n\<close> in \<open>[1, 39999]\<close> the result lies in \<open>[1, 1819]\<close>.
\<close>

theorem getDiary_monotone_and_bounded:
  "(n1 < n2 \<longrightarrow> getDiaryFromLotteryNumber n1 \<le> getDiaryFromLotteryNumber n2)
   \<and> (1 \<le> n \<and> n \<le> 39999
        \<longrightarrow> 1 \<le> getDiaryFromLotteryNumber n \<and> getDiaryFromLotteryNumber n \<le> 1819)"
proof -
  have mono: "getDiaryFromLotteryNumber n1 \<le> getDiaryFromLotteryNumber n2" if "n1 < n2"
  proof (cases "n2 \<le> 39996")
    case True
    with that have "n1 \<le> 39996" and "n1 \<le> n2"
      by simp_all
    with True show ?thesis
      by (simp add: getDiaryFromLotteryNumber_def ceiling_div_22_mono)
  next
    case False
    then have "getDiaryFromLotteryNumber n2 = 1819"
      by (simp add: getDiary_last)
    then show ?thesis
      using getDiary_le_1819 [of n1] by simp
  qed
  have bounded: "1 \<le> getDiaryFromLotteryNumber n \<and> getDiaryFromLotteryNumber n \<le> 1819"
    if "1 \<le> n \<and> n \<le> 39999"
    using that getDiary_positive [of n] getDiary_le_1819 [of n] by simp
  from mono bounded show ?thesis
    by blast
qed

theorem getDiary_monotone_and_bounded_witness:
  "getDiaryFromLotteryNumber 39996 \<le> getDiaryFromLotteryNumber 39997
   \<and> getDiaryFromLotteryNumber 39996 = 1818
   \<and> 1 \<le> getDiaryFromLotteryNumber 39997 \<and> getDiaryFromLotteryNumber 39997 \<le> 1819"
  using getDiary_monotone_and_bounded [of 39996 39997 39997]
  by (simp add: getDiaryFromLotteryNumber_def)

text \<open>
  Claim C9. For every integer \<open>n\<close> in \<open>[1, 39999]\<close>, \<open>getDiaryFromLotteryNumber n\<close> equals
  the plain ceiling of \<open>n / 22\<close>: on 39997, 39998 and 39999 the branch returning 1819
  coincides with the ceiling. The 1819 branch of \<open>getTicketRangeForDiary\<close>, in contrast,
  differs from what its general formula gives for 1819.
\<close>

theorem getDiary_refines_plain_ceiling:
  "(1 \<le> n \<and> n \<le> 39999 \<longrightarrow> getDiaryFromLotteryNumber n = plainCeilingDiary n)
   \<and> plainCeilingDiary 39997 = 1819 \<and> plainCeilingDiary 39998 = 1819
   \<and> plainCeilingDiary 39999 = 1819
   \<and> getTicketRangeForDiary 1819 \<noteq> generalRangeFormula 1819"
proof -
  have "getDiaryFromLotteryNumber n = plainCeilingDiary n" if n: "1 \<le> n \<and> n \<le> 39999"
  proof (cases "n \<le> 39996")
    case True
    then show ?thesis
      by (simp add: getDiaryFromLotteryNumber_def plainCeilingDiary_def)
  next
    case False
    with n have "22 * (1819 - 1) < n" and "n \<le> 22 * 1819"
      by simp_all
    then have "\<lceil>real_of_int n / 22\<rceil> = 1819"
      by (rule ceiling_div_22_unique)
    with False show ?thesis
      by (simp add: getDiaryFromLotteryNumber_def plainCeilingDiary_def)
  qed
  moreover have "plainCeilingDiary 39997 = 1819" "plainCeilingDiary 39998 = 1819"
    "plainCeilingDiary 39999 = 1819"
    by (simp_all add: plainCeilingDiary_def)
  moreover have "getTicketRangeForDiary 1819 \<noteq> generalRangeFormula 1819"
    by (simp add: getTicketRangeForDiary_def generalRangeFormula_def)
  ultimately show ?thesis
    by blast
qed

theorem getDiary_refines_plain_ceiling_witness:
  "getDiaryFromLotteryNumber 39998 = plainCeilingDiary 39998
   \<and> getDiaryFromLotteryNumber 39998 = 1819
   \<and> end' (getTicketRangeForDiary 1819) = 39999
   \<and> end' (generalRangeFormula 1819) = 40018"
  using getDiary_refines_plain_ceiling [of 39998]
  by (simp add: getDiaryFromLotteryNumber_def getTicketRangeForDiary_def
      generalRangeFormula_def)

subsection \<open>Formatting and parsing\<close>

lemma isDigit_digitChar: "d < 10 \<Longrightarrow> isDigit (digitChar d)"
  by (simp add: isDigit_def digitChar_def)

lemma digitValue_digitChar: "d < 10 \<Longrightarrow> digitValue (digitChar d) = int d"
  by (simp add: digitValue_def digitChar_def)

lemma toDigits_all_digits: "\<forall>c \<in> set (toDigits n). isDigit c"
proof (induction n rule: toDigits.induct)
  case (1 n)
  show ?case
  proof (cases "n < 10")
    case True
    then show ?thesis
      by (subst toDigits.simps) (simp add: isDigit_digitChar)
  next
    case False
    with 1 show ?thesis
      by (subst toDigits.simps) (simp add: isDigit_digitChar)
  qed
qed

lemma digitsToInt_snoc: "digitsToInt (ds @ [c]) = digitsToInt ds * 10 + digitValue c"
  by (simp add: digitsToInt_def)

lemma digitsToInt_toDigits: "digitsToInt (toDigits n) = int n"
proof (induction n rule: toDigits.induct)
  case (1 n)
  show ?case
  proof (cases "n < 10")
    case True
    then show ?thesis
      by (subst toDigits.simps) (simp add: digitsToInt_def digitValue_digitChar)
  next
    case False
    then have "digitsToInt (toDigits n) = digitsToInt (toDigits (n div 10)) * 10 + int (n mod 10)"
      by (subst toDigits.simps) (simp add: digitsToInt_snoc digitValue_digitChar)
    also have "\<dots> = int (n div 10) * 10 + int (n mod 10)"
      using 1 False by simp
    also have "\<dots> = int n"
      by (simp add: zdiv_int zmod_int)
    finally show ?thesis .
  qed
qed

lemma digitsToInt_leading_zeros:
  "digitsToInt (replicate k (CHR ''0'') @ ds) = digitsToInt ds"
proof -
  have "foldl (\<lambda>acc c. acc * 10 + digitValue c) 0 (replicate k (CHR ''0'')) = 0"
    by (induction k) (simp_all add: digitValue_def)
  then show ?thesis
    by (simp add: digitsToInt_def)
qed

lemma toDigits_nonempty: "toDigits n \<noteq> []"
  by (subst toDigits.simps) simp

lemma length_toDigits: "n < 10 ^ k \<Longrightarrow> 0 < k \<Longrightarrow> length (toDigits n) \<le> k"
proof (induction n arbitrary: k rule: toDigits.induct)
  case (1 n)
  show ?case
  proof (cases "n < 10")
    case True
    with 1 show ?thesis
      by (subst toDigits.simps) simp
  next
    case False
    with "1.prems" obtain j where k: "k = Suc j" and j: "0 < j"
      by (cases k; cases "k - 1") auto
    with "1.prems" have "n div 10 < 10 ^ j"
      by (simp add: less_mult_imp_div_less mult.commute)
    with 1 False j have "length (toDigits (n div 10)) \<le> j"
      by simp
    with False k show ?thesis
      by (subst toDigits.simps) simp
  qed
qed

lemma isDigit_zero: "isDigit (CHR ''0'')"
  by (simp add: isDigit_def)

lemma isDigit_not_special:
  assumes "isDigit c"
  shows "\<not> isWhiteSpace c" and "c \<noteq> CHR ''+''" and "c \<noteq> CHR ''-''"
  using assms by (auto simp add: isDigit_def isWhiteSpace_def)

lemma parseInt10_digits:
  assumes "ds \<noteq> []" and "\<forall>c \<in> set ds. isDigit c"
  shows "parseInt10 ds = Some (digitsToInt ds)"
proof -
  from assms obtain c cs where ds: "ds = c # cs" and c: "isDigit c"
    by (cases ds) auto
  have dw: "dropWhile isWhiteSpace ds = ds"
    using ds isDigit_not_special(1) [OF c] by simp
  have sign: "hd ds \<noteq> CHR ''+''" "hd ds \<noteq> CHR ''-''"
    using ds isDigit_not_special(2,3) [OF c] by simp_all
  have tw: "takeWhile isDigit ds = ds"
    using assms(2) by (simp add: takeWhile_eq_all_conv)
  show ?thesis
    unfolding parseInt10_def Let_def dw
    using assms(1) by (simp add: sign tw)
qed

lemma formatLotteryNumber_nonneg:
  assumes "0 \<le> n"
  shows "formatLotteryNumber n
         = replicate (5 - length (toDigits (nat n))) (CHR ''0'') @ toDigits (nat n)"
  using assms by (simp add: formatLotteryNumber_def padStart_def numberToString_def)

text \<open>
  Claim C5. For every integer \<open>n\<close> in \<open>[1, 39999]\<close>,
  \<open>parseLotteryNumber (formatLotteryNumber n)\<close> is \<open>n\<close>: formatting gives a string of
  exactly five decimal digits (the number padded with zeros on the left), and parsing reads
  the same integer back.
\<close>

theorem format_parse_roundtrip:
  assumes "1 \<le> n" and "n \<le> 39999"
  shows "parseLotteryNumber (formatLotteryNumber n) = Some n
       \<and> length (formatLotteryNumber n) = 5
       \<and> (\<forall>c \<in> set (formatLotteryNumber n). isDigit c)"
proof -
  let ?ds = "toDigits (nat n)"
  have fmt: "formatLotteryNumber n = replicate (5 - length ?ds) (CHR ''0'') @ ?ds"
    using assms(1) by (simp add: formatLotteryNumber_nonneg)
  have "nat n < 10 ^ 5"
    using assms by simp
  then have len: "length ?ds \<le> 5"
    by (rule length_toDigits) simp
  have digits: "\<forall>c \<in> set (formatLotteryNumber n). isDigit c"
    using toDigits_all_digits [of "nat n"] by (auto simp add: fmt isDigit_zero)
  have nonempty: "formatLotteryNumber n \<noteq> []"
    by (simp add: fmt toDigits_nonempty)
  have "parseLotteryNumber (formatLotteryNumber n) = Some (digitsToInt (formatLotteryNumber n))"
    unfolding parseLotteryNumber_def using nonempty digits by (rule parseInt10_digits)
  also have "digitsToInt (formatLotteryNumber n) = int (nat n)"
    by (simp only: fmt digitsToInt_leading_zeros digitsToInt_toDigits)
  also have "int (nat n) = n"
    using assms(1) by simp
  finally have "parseLotteryNumber (formatLotteryNumber n) = Some n" .
  moreover have "length (formatLotteryNumber n) = 5"
    using len by (simp add: fmt)
  ultimately show ?thesis
    using digits by simp
qed

theorem format_parse_roundtrip_witness:
  "formatLotteryNumber 105 = ''00105''
   \<and> parseLotteryNumber ''00105'' = Some 105
   \<and> parseLotteryNumber (formatLotteryNumber 105) = Some 105"
proof -
  have "formatLotteryNumber 105 = ''00105''"
    by code_simp
  then show ?thesis
    using format_parse_roundtrip [of 105] by simp
qed

section \<open>Properties of the winner guard and of registration\<close>

subsection \<open>Trimming\<close>

lemma last_dropWhile_nonempty:
  "dropWhile P xs \<noteq> [] \<Longrightarrow> last (dropWhile P xs) = last xs"
  by (induction xs) (auto split: if_splits)

lemma trim_ends:
  assumes "rev (dropWhile P (rev (dropWhile P s))) \<noteq> []"
  shows "\<not> P (hd (rev (dropWhile P (rev (dropWhile P s)))))"
    and "\<not> P (last (rev (dropWhile P (rev (dropWhile P s)))))"
proof -
  let ?u = "dropWhile P s"
  let ?v = "dropWhile P (rev ?u)"
  from assms have v: "?v \<noteq> []"
    by simp
  have u: "?u \<noteq> []"
  proof
    assume "?u = []"
    then have "?v = []"
      by (simp only: rev.simps dropWhile.simps)
    with v show False ..
  qed
  have "hd (rev ?v) = last ?v"
    using v by (simp add: hd_rev)
  also have "\<dots> = last (rev ?u)"
    using v by (rule last_dropWhile_nonempty)
  also have "\<dots> = hd ?u"
    using u by (simp add: last_rev)
  finally have "hd (rev ?v) = hd ?u" .
  moreover have "\<not> P (hd ?u)"
    using u by (rule hd_dropWhile)
  ultimately show "\<not> P (hd (rev ?v))"
    by simp
  have "last (rev ?v) = hd ?v"
    using v by (simp add: last_rev)
  moreover have "\<not> P (hd ?v)"
    using v by (rule hd_dropWhile)
  ultimately show "\<not> P (last (rev ?v))"
    by simp
qed

lemma dropWhile_no_effect: "xs = [] \<or> \<not> P (hd xs) \<Longrightarrow> dropWhile P xs = xs"
  by (cases xs) auto

lemma trim_idem:
  "rev (dropWhile P (rev (dropWhile P (rev (dropWhile P (rev (dropWhile P s)))))))
   = rev (dropWhile P (rev (dropWhile P s)))"
proof (cases "rev (dropWhile P (rev (dropWhile P s))) = []")
  case True
  show ?thesis
    by (simp only: True dropWhile.simps rev.simps)
next
  case False
  let ?t = "rev (dropWhile P (rev (dropWhile P s)))"
  have "dropWhile P ?t = ?t"
    using trim_ends(1) [OF False] by (intro dropWhile_no_effect) simp
  moreover have "dropWhile P (rev ?t) = rev ?t"
  proof (intro dropWhile_no_effect disjI2)
    have "hd (rev ?t) = last ?t"
      using False by (simp only: hd_rev)
    then show "\<not> P (hd (rev ?t))"
      using trim_ends(2) [OF False] by simp
  qed
  ultimately show ?thesis
    by (simp only: rev_rev_ident)
qed

lemma trim_decomposition:
  "\<exists>a b. s = a @ rev (dropWhile P (rev (dropWhile P s))) @ b
         \<and> (\<forall>c \<in> set a. P c) \<and> (\<forall>c \<in> set b. P c)"
proof -
  let ?u = "dropWhile P s"
  have s: "s = takeWhile P s @ ?u"
    by simp
  have "rev ?u = takeWhile P (rev ?u) @ dropWhile P (rev ?u)"
    by simp
  then have "rev (rev ?u) = rev (takeWhile P (rev ?u) @ dropWhile P (rev ?u))"
    by (rule arg_cong)
  then have u: "?u = rev (dropWhile P (rev ?u)) @ rev (takeWhile P (rev ?u))"
    by (simp only: rev_rev_ident rev_append)
  have "s = takeWhile P s @ rev (dropWhile P (rev ?u)) @ rev (takeWhile P (rev ?u))"
    using s u by simp
  moreover have "\<forall>c \<in> set (takeWhile P s). P c"
    by (auto dest: set_takeWhileD)
  moreover have "\<forall>c \<in> set (rev (takeWhile P (rev ?u))). P c"
    by (auto dest: set_takeWhileD)
  ultimately show ?thesis
    by blast
qed

lemma sql_trim_idem: "sql_trim (sql_trim s) = sql_trim s"
  unfolding sql_trim_def by (rule trim_idem)

lemma sql_trim_no_outer_space:
  assumes "sql_trim s \<noteq> []"
  shows "hd (sql_trim s) \<noteq> CHR '' ''" and "last (sql_trim s) \<noteq> CHR '' ''"
  using assms trim_ends [of "\<lambda>c. c = CHR '' ''" s] unfolding sql_trim_def by simp_all

lemma all_same_replicate: "\<forall>c \<in> set xs. c = x \<Longrightarrow> xs = replicate (length xs) x"
  by (induction xs) simp_all

lemma sql_trim_removes_spaces_only:
  "\<exists>a b. s = replicate a (CHR '' '') @ sql_trim s @ replicate b (CHR '' '')"
proof -
  from trim_decomposition [of s "\<lambda>c. c = CHR '' ''"]
  obtain a b where s: "s = a @ sql_trim s @ b"
    and a: "\<forall>c \<in> set a. c = CHR '' ''" and b: "\<forall>c \<in> set b. c = CHR '' ''"
    unfolding sql_trim_def by (elim exE conjE)
  have "s = replicate (length a) (CHR '' '') @ sql_trim s @ replicate (length b) (CHR '' '')"
    using s all_same_replicate [OF a] all_same_replicate [OF b] by (simp only:)
  then show ?thesis
    by (intro exI)
qed

lemma is_null_or_empty_trimmed:
  "is_null_or_empty (map_option sql_trim x) = is_null_or_empty x"
  by (cases x) (simp_all add: is_null_or_empty_def sql_trim_idem)

lemma is_null_or_empty_Some: "\<not> is_null_or_empty x \<Longrightarrow> \<exists>s. x = Some s \<and> sql_trim s \<noteq> []"
  by (cases x) (simp_all add: is_null_or_empty_def)

lemma trim_append_padding:
  assumes "\<forall>c \<in> set ys. P c"
  shows "rev (dropWhile P (rev (dropWhile P (xs @ ys))))
         = rev (dropWhile P (rev (dropWhile P xs)))"
proof (cases "\<forall>c \<in> set xs. P c")
  case True
  with assms have "dropWhile P (xs @ ys) = []" and "dropWhile P xs = []"
    by auto
  then show ?thesis
    by (simp only:)
next
  case False
  then obtain x where "x \<in> set xs" and "\<not> P x"
    by blast
  then have "dropWhile P (xs @ ys) = dropWhile P xs @ ys"
    by (rule dropWhile_append1)
  then have "rev (dropWhile P (xs @ ys)) = rev ys @ rev (dropWhile P xs)"
    by (simp only: rev_append)
  moreover have "dropWhile P (rev ys @ rev (dropWhile P xs)) = dropWhile P (rev (dropWhile P xs))"
    using assms by (intro dropWhile_append2) simp
  ultimately show ?thesis
    by (simp only:)
qed

lemma sql_trim_take:
  assumes "\<forall>c \<in> set (drop n s). c = CHR '' ''"
  shows "sql_trim (take n s) = sql_trim s"
proof -
  have "sql_trim (take n s @ drop n s) = sql_trim (take n s)"
    unfolding sql_trim_def using assms by (rule trim_append_padding)
  then show ?thesis
    by (simp only: append_take_drop_id)
qed

lemma is_null_or_empty_by_trim:
  assumes "map_option sql_trim x = map_option sql_trim y"
  shows "is_null_or_empty x = is_null_or_empty y"
  using assms by (cases x; cases y) (simp_all add: is_null_or_empty_def)

subsection \<open>The conversion of the values\<close>

lemma coerce_integer_Inr:
  assumes "coerce_integer column v = Inr v'"
  shows "v' = v"
  using assms by (auto simp add: coerce_integer_def split: option.splits if_splits)

lemma coerce_text_Inr:
  assumes "coerce_text column v = Inr v'"
  shows "v' = v"
  using assms by (auto simp add: coerce_text_def split: option.splits if_splits)

lemma coerce_varchar_Inr:
  assumes "coerce_varchar n column v = Inr v'"
  shows "map_option sql_trim v' = map_option sql_trim v"
proof (cases v)
  case None
  with assms show ?thesis
    by (simp add: coerce_varchar_def)
next
  case (Some s)
  show ?thesis
  proof (cases "length s \<le> n")
    case True
    with assms Some have "v' = v"
      by (simp add: coerce_varchar_def split: if_splits)
    then show ?thesis
      by simp
  next
    case False
    with assms Some have spaces: "\<forall>c \<in> set (drop n s). c = CHR '' ''"
      and v': "v' = Some (take n s)"
      by (simp_all add: coerce_varchar_def list_all_iff split: if_splits)
    from sql_trim_take [OF spaces] v' Some show ?thesis
      by simp
  qed
qed

lemma coerce_row_steps:
  assumes "coerce_row new = Inr converted"
  shows "\<exists>number category quantity name contact address diary notes.
           coerce_integer ''lottery_number'' (lottery_number new) = Inr number
           \<and> coerce_varchar 255 ''prize_category'' (prize_category new) = Inr category
           \<and> coerce_integer ''prize_quantity'' (prize_quantity new) = Inr quantity
           \<and> coerce_varchar 255 ''winner_name'' (winner_name new) = Inr name
           \<and> coerce_varchar 20 ''winner_contact'' (winner_contact new) = Inr contact
           \<and> coerce_text ''winner_address'' (winner_address new) = Inr address
           \<and> coerce_integer ''diary_number'' (diary_number new) = Inr diary
           \<and> coerce_text ''notes'' (notes' new) = Inr notes
           \<and> converted = new\<lparr>lottery_number := number, prize_category := category,
                               prize_quantity := quantity, winner_name := name,
                               winner_contact := contact, winner_address := address,
                               diary_number := diary, notes' := notes\<rparr>"
  using assms unfolding coerce_row_def by (simp split: sum.splits)

lemma coerce_row_Inr:
  assumes "coerce_row new = Inr converted"
  shows "trim_text_fields converted = trim_text_fields new"
    and "lottery_number converted = lottery_number new"
    and "id' converted = id' new"
    and "required_fields_present converted = required_fields_present new"
proof -
  from coerce_row_steps [OF assms]
  obtain number category quantity name contact address diary remark
    where number: "coerce_integer ''lottery_number'' (lottery_number new) = Inr number"
      and category: "coerce_varchar 255 ''prize_category'' (prize_category new) = Inr category"
      and quantity: "coerce_integer ''prize_quantity'' (prize_quantity new) = Inr quantity"
      and name: "coerce_varchar 255 ''winner_name'' (winner_name new) = Inr name"
      and contact: "coerce_varchar 20 ''winner_contact'' (winner_contact new) = Inr contact"
      and address: "coerce_text ''winner_address'' (winner_address new) = Inr address"
      and diary: "coerce_integer ''diary_number'' (diary_number new) = Inr diary"
      and remark: "coerce_text ''notes'' (notes' new) = Inr remark"
      and converted: "converted = new\<lparr>lottery_number := number, prize_category := category,
                               prize_quantity := quantity, winner_name := name,
                               winner_contact := contact, winner_address := address,
                               diary_number := diary, notes' := remark\<rparr>"
    by (elim exE conjE)
  note same = coerce_integer_Inr [OF number] coerce_integer_Inr [OF quantity]
    coerce_integer_Inr [OF diary] coerce_text_Inr [OF address] coerce_text_Inr [OF remark]
  note trims = coerce_varchar_Inr [OF category] coerce_varchar_Inr [OF name]
    coerce_varchar_Inr [OF contact]
  show "trim_text_fields converted = trim_text_fields new"
    by (simp add: converted trim_text_fields_def trims same)
  show "lottery_number converted = lottery_number new" and "id' converted = id' new"
    by (simp_all add: converted same)
  have "is_null_or_empty category = is_null_or_empty (prize_category new)"
    by (rule is_null_or_empty_by_trim [OF coerce_varchar_Inr [OF category]])
  moreover have "is_null_or_empty name = is_null_or_empty (winner_name new)"
    by (rule is_null_or_empty_by_trim [OF coerce_varchar_Inr [OF name]])
  moreover have "is_null_or_empty contact = is_null_or_empty (winner_contact new)"
    by (rule is_null_or_empty_by_trim [OF coerce_varchar_Inr [OF contact]])
  ultimately show "required_fields_present converted = required_fields_present new"
    by (simp add: converted required_fields_present_def)
qed

subsection \<open>The insert trigger\<close>

lemma trimmed_required_field:
  assumes "\<not> is_null_or_empty x"
  shows "\<exists>t. map_option sql_trim x = Some t \<and> t \<noteq> []
             \<and> hd t \<noteq> CHR '' '' \<and> last t \<noteq> CHR '' ''"
proof -
  from assms obtain s where s: "x = Some s" and t: "sql_trim s \<noteq> []"
    using is_null_or_empty_Some by blast
  then show ?thesis
    using sql_trim_no_outer_space [OF t] by simp
qed

lemma validate_on_insert_Inr:
  assumes "validate_winner_data_on_insert new = Inr new'"
  shows "new' = trim_text_fields new" and "required_fields_present new"
  using assms
  by (auto simp add: validate_winner_data_on_insert_def required_fields_present_def
      split: if_splits)

lemma trim_text_fields_required:
  assumes "required_fields_present new"
  shows "\<exists>name contact category.
           winner_name (trim_text_fields new) = Some name \<and> name \<noteq> []
           \<and> hd name \<noteq> CHR '' '' \<and> last name \<noteq> CHR '' ''
           \<and> winner_contact (trim_text_fields new) = Some contact \<and> contact \<noteq> []
           \<and> hd contact \<noteq> CHR '' '' \<and> last contact \<noteq> CHR '' ''
           \<and> prize_category (trim_text_fields new) = Some category \<and> category \<noteq> []
           \<and> hd category \<noteq> CHR '' '' \<and> last category \<noteq> CHR '' ''"
  using assms trimmed_required_field [of "winner_name new"]
    trimmed_required_field [of "winner_contact new"]
    trimmed_required_field [of "prize_category new"]
  by (auto simp add: required_fields_present_def trim_text_fields_def)

text \<open>
  What the \<^verbatim>\<open>BEFORE INSERT\<close> trigger function does: it rejects a row exactly when one
  of \<open>winner_name\<close>, \<open>winner_contact\<close> and \<open>prize_category\<close> is null or has nothing
  but spaces, every rejection being a missing required field; otherwise it returns the row
  with the five text fields freed of the spaces at their ends, and every other column as
  sent.
\<close>

lemma validate_on_insert_behaviour:
  "((\<exists>e. validate_winner_data_on_insert new = Inl e)
      \<longleftrightarrow> (is_null_or_empty (winner_name new) \<or> is_null_or_empty (winner_contact new)
           \<or> is_null_or_empty (prize_category new)))
   \<and> (\<forall>e. validate_winner_data_on_insert new = Inl e
          \<longrightarrow> (\<exists>field. e = MissingRequiredField field None))
   \<and> (\<not> is_null_or_empty (winner_name new) \<and> \<not> is_null_or_empty (winner_contact new)
        \<and> \<not> is_null_or_empty (prize_category new)
        \<longrightarrow> validate_winner_data_on_insert new
            = Inr (new\<lparr>winner_name := map_option sql_trim (winner_name new),
                       winner_contact := map_option sql_trim (winner_contact new),
                       prize_category := map_option sql_trim (prize_category new),
                       winner_address := map_option sql_trim (winner_address new),
                       notes' := map_option sql_trim (notes' new)\<rparr>))"
proof (intro conjI)
  show "(\<exists>e. validate_winner_data_on_insert new = Inl e)
      \<longleftrightarrow> (is_null_or_empty (winner_name new) \<or> is_null_or_empty (winner_contact new)
           \<or> is_null_or_empty (prize_category new))"
    by (simp add: validate_winner_data_on_insert_def)
  show "\<forall>e. validate_winner_data_on_insert new = Inl e
          \<longrightarrow> (\<exists>field. e = MissingRequiredField field None)"
    by (auto simp add: validate_winner_data_on_insert_def split: if_splits)
  show "\<not> is_null_or_empty (winner_name new) \<and> \<not> is_null_or_empty (winner_contact new)
        \<and> \<not> is_null_or_empty (prize_category new)
        \<longrightarrow> validate_winner_data_on_insert new
            = Inr (new\<lparr>winner_name := map_option sql_trim (winner_name new),
                       winner_contact := map_option sql_trim (winner_contact new),
                       prize_category := map_option sql_trim (prize_category new),
                       winner_address := map_option sql_trim (winner_address new),
                       notes' := map_option sql_trim (notes' new)\<rparr>)"
    by (simp add: validate_winner_data_on_insert_def trim_text_fields_def)
qed

lemma validate_john_input: "validate_winner_data_on_insert john_input = Inr john"
  by (simp add: john_input_def john_def validate_winner_data_on_insert_def
      trim_text_fields_def is_null_or_empty_def sql_trim_def)

lemma validate_spaces_only:
  "validate_winner_data_on_insert (john_input\<lparr>winner_name := Some ''  ''\<rparr>)
   = Inl (MissingRequiredField ''winner_name'' None)"
  by (simp add: john_input_def validate_winner_data_on_insert_def is_null_or_empty_def
      sql_trim_def)

lemma coerce_row_tab_named: "coerce_row tab_named = Inr tab_named"
  by (simp add: coerce_row_def coerce_integer_def coerce_varchar_def coerce_text_def
      tab_named_def)

lemma validate_tab_named: "validate_winner_data_on_insert tab_named = Inr tab_named"
  by (simp add: tab_named_def validate_winner_data_on_insert_def trim_text_fields_def
      is_null_or_empty_def sql_trim_def)

lemma check_constraints_tab_named: "check_constraints tab_named = None"
  by (simp add: tab_named_def check_constraints_def is_null_or_empty_def sql_trim_def)

lemma check_foreign_keys_tab_named: "check_foreign_keys empty_db tab_named = None"
  by (simp add: tab_named_def check_foreign_keys_def empty_db_def)

lemma keys_tab_named:
  "id' tab_named \<notin> id' ` set (lottery_winners empty_db)"
  "lottery_number tab_named \<notin> lottery_number ` set (lottery_winners empty_db)"
  by (simp_all add: empty_db_def)

text \<open>
  Claim C2 has the \<^verbatim>\<open>BEFORE INSERT\<close> trigger reject a row whose \<open>winner_name\<close> is
  empty once white space is trimmed, and store the text fields without white space at their
  ends. The trigger function, whose comment reads \<^verbatim>\<open>Trim whitespace from text fields\<close>,
  removes spaces only. A row whose \<open>winner_name\<close> is a single tab character, which the
  check of \<^verbatim>\<open>registerWinner\<close> on the purchaser's name counts as blank, is not null or
  empty for the trigger: the trigger returns the row as it is and the \<^verbatim>\<open>INSERT\<close>
  stores it with that name.
\<close>

theorem insert_trigger_keeps_tab_only_name:
  "winner_name tab_named = Some [CHR 0x09]
   \<and> js_trim [CHR 0x09] = []
   \<and> missing_or_blank (winner_name tab_named)
   \<and> \<not> is_null_or_empty (winner_name tab_named)
   \<and> validate_winner_data_on_insert tab_named = Inr tab_named
   \<and> insert_winner empty_db tab_named
       = Inr (empty_db\<lparr>lottery_winners := lottery_winners empty_db @ [tab_named]\<rparr>)"
proof -
  have name: "winner_name tab_named = Some [CHR 0x09]"
    by (simp add: tab_named_def)
  have blank: "js_trim [CHR 0x09] = []"
    by (simp add: js_trim_def isWhiteSpace_def)
  have kept: "\<not> is_null_or_empty (Some [CHR 0x09])"
    by (simp add: is_null_or_empty_def sql_trim_def)
  have stored: "insert_winner empty_db tab_named
                = Inr (empty_db\<lparr>lottery_winners := lottery_winners empty_db @ [tab_named]\<rparr>)"
    unfolding insert_winner_def
    by (simp add: coerce_row_tab_named validate_tab_named check_constraints_tab_named
        check_foreign_keys_tab_named keys_tab_named)
  from name blank kept stored validate_tab_named show ?thesis
    by (simp add: missing_or_blank_def)
qed

subsection \<open>The update triggers and the update statement\<close>

lemma prevent_winner_data_loss_Inr:
  assumes "prevent_winner_data_loss old new = Inr new'"
  shows "new' = trim_text_fields new"
    and "sql_neq (lottery_number new) (lottery_number old) \<noteq> Some True"
    and "required_fields_present new"
  using assms
  by (auto simp add: prevent_winner_data_loss_def required_fields_present_def split: if_splits)

lemma sql_neq_same:
  assumes "sql_neq x (Some a) \<noteq> Some True" and "x \<noteq> None"
  shows "x = Some a"
  using assms by (cases x) (simp_all add: sql_neq_def)

lemma check_constraints_None:
  assumes "check_constraints r = None"
  shows "lottery_number r \<noteq> None" and "id' r \<noteq> None"
  using assms by (auto simp add: check_constraints_def split: if_splits)

lemma check_constraints_null_number:
  assumes "lottery_number r = None"
  shows "\<exists>column. check_constraints r = Some (NotNullViolation column)"
  using assms by (simp add: check_constraints_def)

lemma trim_text_fields_keeps:
  "lottery_number (trim_text_fields new) = lottery_number new"
  "diary_number (trim_text_fields new) = diary_number new"
  "id' (trim_text_fields new) = id' new"
  "ticket_sale_id (trim_text_fields new) = ticket_sale_id new"
  "registered_by (trim_text_fields new) = registered_by new"
  by (simp_all add: trim_text_fields_def)

lemma before_update_row_steps:
  assumes "before_update_row now old new = Inr new'"
  shows "\<exists>converted. coerce_row new = Inr converted
           \<and> prevent_winner_data_loss old converted = Inr (trim_text_fields converted)
           \<and> new' = (trim_text_fields converted)\<lparr>updated_at := Some now\<rparr>
           \<and> check_constraints new' = None"
proof -
  from assms obtain converted where converted: "coerce_row new = Inr converted"
    unfolding before_update_row_def by (cases "coerce_row new") simp_all
  with assms obtain new1 where new1: "prevent_winner_data_loss old converted = Inr new1"
    unfolding before_update_row_def by (cases "prevent_winner_data_loss old converted") simp_all
  then have trimmed: "new1 = trim_text_fields converted"
    by (rule prevent_winner_data_loss_Inr(1))
  from assms converted new1
  have "new' = new1\<lparr>updated_at := Some now\<rparr>" and "check_constraints new' = None"
    unfolding before_update_row_def update_lottery_winners_updated_at_def Let_def
    by (auto split: option.splits)
  with converted new1 trimmed show ?thesis
    by simp
qed

lemma before_update_row_Inr:
  assumes "before_update_row now old new = Inr new'"
  shows "new' = (trim_text_fields new)\<lparr>updated_at := Some now\<rparr>"
    and "lottery_number old \<noteq> None \<Longrightarrow> lottery_number new = lottery_number old"
proof -
  from before_update_row_steps [OF assms] obtain converted
    where converted: "coerce_row new = Inr converted"
      and trigger: "prevent_winner_data_loss old converted = Inr (trim_text_fields converted)"
      and new': "new' = (trim_text_fields converted)\<lparr>updated_at := Some now\<rparr>"
      and constraints: "check_constraints new' = None"
    by (elim exE conjE)
  show "new' = (trim_text_fields new)\<lparr>updated_at := Some now\<rparr>"
    using new' coerce_row_Inr(1) [OF converted] by simp
  show "lottery_number new = lottery_number old" if "lottery_number old \<noteq> None"
  proof -
    from that obtain a where a: "lottery_number old = Some a"
      by auto
    have "lottery_number new' \<noteq> None"
      using constraints by (rule check_constraints_None(1))
    then have "lottery_number converted \<noteq> None"
      by (simp add: new' trim_text_fields_keeps)
    moreover have "sql_neq (lottery_number converted) (Some a) \<noteq> Some True"
      using prevent_winner_data_loss_Inr(2) [OF trigger] a by simp
    ultimately have "lottery_number converted = Some a"
      by (intro sql_neq_same)
    with a coerce_row_Inr(2) [OF converted] show ?thesis
      by simp
  qed
qed

lemma before_update_row_changed_number:
  assumes "lottery_number old = Some a" and "lottery_number new \<noteq> Some a"
  shows "\<exists>e. before_update_row now old new = Inl e"
proof (cases "before_update_row now old new")
  case (Inl e)
  then show ?thesis by simp
next
  case (Inr new')
  with assms before_update_row_Inr(2) [OF Inr] show ?thesis
    by simp
qed

lemma update_rows_Inr:
  assumes "update_rows now selected assign rs = Inr rs'"
  shows "rs' = map (\<lambda>r. if selected r
                          then (trim_text_fields (assign r))\<lparr>updated_at := Some now\<rparr>
                          else r) rs"
  using assms
proof (induction rs arbitrary: rs')
  case Nil
  then show ?case by simp
next
  case (Cons r rs)
  show ?case
  proof (cases "selected r")
    case True
    with Cons.prems obtain r' rest where r': "before_update_row now r (assign r) = Inr r'"
      and rest: "update_rows now selected assign rs = Inr rest" and rs': "rs' = r' # rest"
      by (auto split: sum.splits)
    from before_update_row_Inr(1) [OF r'] Cons.IH [OF rest] rs' True show ?thesis
      by simp
  next
    case False
    with Cons.prems obtain rest where rest: "update_rows now selected assign rs = Inr rest"
      and rs': "rs' = r # rest"
      by (auto split: sum.splits)
    from Cons.IH [OF rest] rs' False show ?thesis
      by simp
  qed
qed

lemma update_rows_failure:
  assumes "r \<in> set rs" and "selected r" and "before_update_row now r (assign r) = Inl e"
  shows "\<exists>e'. update_rows now selected assign rs = Inl e'"
  using assms
proof (induction rs)
  case Nil
  then show ?case by simp
next
  case (Cons x xs)
  show ?case
  proof (cases "x = r")
    case True
    with Cons.prems show ?thesis
      by simp
  next
    case False
    with Cons.prems Cons.IH obtain e' where "update_rows now selected assign xs = Inl e'"
      by auto
    then show ?thesis
      by (simp split: sum.splits)
  qed
qed

lemma update_winners_failure:
  assumes "update_rows now selected assign (lottery_winners db) = Inl e"
  shows "update_winners now selected assign db = (Inl e, db)"
  using assms by (simp add: update_winners_def)

lemma john_facts:
  "lottery_number john = Some 105" "id' john = Some 1105" "required_fields_present john"
  "winner_name john = Some ''John Doe''" "updated_at john = Some 1"
  "lottery_winners john_db = [john]"
  by (simp_all add: john_def john_db_def required_fields_present_def is_null_or_empty_def
      sql_trim_def)

lemma coerce_row_john: "coerce_row john = Inr john"
  by (simp add: coerce_row_def coerce_integer_def coerce_varchar_def coerce_text_def john_def)

lemma coerce_row_john_number:
  "coerce_row (john\<lparr>lottery_number := Some 106\<rparr>) = Inr (john\<lparr>lottery_number := Some 106\<rparr>)"
  "coerce_row (john\<lparr>lottery_number := None\<rparr>) = Inr (john\<lparr>lottery_number := None\<rparr>)"
  "coerce_row (john\<lparr>lottery_number := Some 2147483648\<rparr>)
   = Inl (NumericValueOutOfRange ''lottery_number'')"
  by (simp_all add: coerce_row_def coerce_integer_def coerce_varchar_def coerce_text_def
      john_def)

lemma john_present:
  "\<not> is_null_or_empty (winner_name john)" "\<not> is_null_or_empty (winner_contact john)"
  "\<not> is_null_or_empty (prize_category john)"
  by (simp_all add: john_def is_null_or_empty_def sql_trim_def)

lemma required_fields_john_number:
  "required_fields_present (john\<lparr>lottery_number := x\<rparr>)"
  using john_facts(3) by (simp add: required_fields_present_def)

text \<open>
  Claim C3, with the order of the checks and the cases in which the comparison of the
  trigger does not apply. Let the stored row hold the \<open>lottery_number\<close> \<open>a\<close>. For a new
  row with another \<open>lottery_number\<close> \<open>b\<close> the \<^verbatim>\<open>BEFORE UPDATE\<close> trigger function
  raises \<open>ImmutableFieldViolation\<close> with \<open>a\<close> and \<open>b\<close> when the three required fields of
  the new row are present, and \<open>MissingRequiredField\<close> otherwise, the required fields being
  tested first. A new \<open>lottery_number\<close> that is \<^verbatim>\<open>NULL\<close> passes the trigger and is
  refused by \<^verbatim>\<open>NOT NULL\<close>; one outside the 32 bits of \<^verbatim>\<open>INTEGER\<close> is refused before
  the trigger runs. In every case in which the new \<open>lottery_number\<close> is not \<open>a\<close>, the
  \<^verbatim>\<open>UPDATE\<close> statement fails and the database, with the stored row and its
  \<open>lottery_number\<close>, is as before.
\<close>

theorem lottery_number_change_is_rejected:
  "lottery_number old = Some a \<longrightarrow>
     (lottery_number new = Some b \<and> b \<noteq> a \<and> required_fields_present new
        \<longrightarrow> prevent_winner_data_loss old new
            = Inl (ImmutableFieldViolation (Some a) (Some b)))
     \<and> (lottery_number new = Some b \<and> b \<noteq> a \<and> \<not> required_fields_present new
        \<longrightarrow> (\<exists>field original. prevent_winner_data_loss old new
                                 = Inl (MissingRequiredField field original)))
     \<and> (lottery_number new = None \<and> required_fields_present new
        \<longrightarrow> prevent_winner_data_loss old new = Inr (trim_text_fields new)
            \<and> (\<forall>converted. coerce_row new = Inr converted
                  \<longrightarrow> (\<exists>column. before_update_row now old new
                                    = Inl (NotNullViolation column))))
     \<and> (lottery_number new = Some b \<and> (b < - 2147483648 \<or> 2147483647 < b)
        \<longrightarrow> before_update_row now old new = Inl (NumericValueOutOfRange ''lottery_number''))
     \<and> (lottery_number new \<noteq> Some a \<and> old \<in> set (lottery_winners db) \<and> selected old
          \<and> assign old = new
        \<longrightarrow> (\<exists>e. update_winners now selected assign db = (Inl e, db)))"
proof
  assume stored: "lottery_number old = Some a"
  have immutable: "lottery_number new = Some b \<and> b \<noteq> a \<and> required_fields_present new
        \<longrightarrow> prevent_winner_data_loss old new
            = Inl (ImmutableFieldViolation (Some a) (Some b))"
    using stored
    by (simp add: prevent_winner_data_loss_def required_fields_present_def sql_neq_def)
  have missing: "lottery_number new = Some b \<and> b \<noteq> a \<and> \<not> required_fields_present new
        \<longrightarrow> (\<exists>field original. prevent_winner_data_loss old new
                                 = Inl (MissingRequiredField field original))"
    by (auto simp add: prevent_winner_data_loss_def required_fields_present_def)
  have null: "lottery_number new = None \<and> required_fields_present new
        \<longrightarrow> prevent_winner_data_loss old new = Inr (trim_text_fields new)
            \<and> (\<forall>converted. coerce_row new = Inr converted
                  \<longrightarrow> (\<exists>column. before_update_row now old new
                                    = Inl (NotNullViolation column)))"
  proof (intro impI conjI allI)
    assume n: "lottery_number new = None \<and> required_fields_present new"
    then show "prevent_winner_data_loss old new = Inr (trim_text_fields new)"
      by (simp add: prevent_winner_data_loss_def required_fields_present_def sql_neq_def)
    fix converted
    assume converted: "coerce_row new = Inr converted"
    from n coerce_row_Inr(2,4) [OF converted]
    have c: "lottery_number converted = None" "required_fields_present converted"
      by simp_all
    then have trigger: "prevent_winner_data_loss old converted
                        = Inr (trim_text_fields converted)"
      by (simp add: prevent_winner_data_loss_def required_fields_present_def sql_neq_def)
    have "lottery_number ((trim_text_fields converted)\<lparr>updated_at := Some now\<rparr>) = None"
      using c(1) by (simp add: trim_text_fields_keeps)
    then obtain column
      where "check_constraints ((trim_text_fields converted)\<lparr>updated_at := Some now\<rparr>)
             = Some (NotNullViolation column)"
      using check_constraints_null_number by blast
    with converted trigger
    have "before_update_row now old new = Inl (NotNullViolation column)"
      by (simp add: before_update_row_def update_lottery_winners_updated_at_def)
    then show "\<exists>column. before_update_row now old new = Inl (NotNullViolation column)"
      by (rule exI)
  qed
  have range: "lottery_number new = Some b \<and> (b < - 2147483648 \<or> 2147483647 < b)
        \<longrightarrow> before_update_row now old new = Inl (NumericValueOutOfRange ''lottery_number'')"
    by (auto simp add: before_update_row_def coerce_row_def coerce_integer_def)
  have aborted: "lottery_number new \<noteq> Some a \<and> old \<in> set (lottery_winners db) \<and> selected old
          \<and> assign old = new
        \<longrightarrow> (\<exists>e. update_winners now selected assign db = (Inl e, db))"
  proof
    assume a: "lottery_number new \<noteq> Some a \<and> old \<in> set (lottery_winners db) \<and> selected old
          \<and> assign old = new"
    with stored obtain e where "before_update_row now old (assign old) = Inl e"
      using before_update_row_changed_number [of old a new now] by auto
    with a have "\<exists>e'. update_rows now selected assign (lottery_winners db) = Inl e'"
      using update_rows_failure [of old "lottery_winners db" selected now assign] by auto
    then show "\<exists>e. update_winners now selected assign db = (Inl e, db)"
      using update_winners_failure by blast
  qed
  from immutable missing null range aborted
  show "(lottery_number new = Some b \<and> b \<noteq> a \<and> required_fields_present new
        \<longrightarrow> prevent_winner_data_loss old new
            = Inl (ImmutableFieldViolation (Some a) (Some b)))
     \<and> (lottery_number new = Some b \<and> b \<noteq> a \<and> \<not> required_fields_present new
        \<longrightarrow> (\<exists>field original. prevent_winner_data_loss old new
                                 = Inl (MissingRequiredField field original)))
     \<and> (lottery_number new = None \<and> required_fields_present new
        \<longrightarrow> prevent_winner_data_loss old new = Inr (trim_text_fields new)
            \<and> (\<forall>converted. coerce_row new = Inr converted
                  \<longrightarrow> (\<exists>column. before_update_row now old new
                                    = Inl (NotNullViolation column))))
     \<and> (lottery_number new = Some b \<and> (b < - 2147483648 \<or> 2147483647 < b)
        \<longrightarrow> before_update_row now old new = Inl (NumericValueOutOfRange ''lottery_number''))
     \<and> (lottery_number new \<noteq> Some a \<and> old \<in> set (lottery_winners db) \<and> selected old
          \<and> assign old = new
        \<longrightarrow> (\<exists>e. update_winners now selected assign db = (Inl e, db)))"
    by (intro conjI)
qed

lemma update_john_to_106:
  "update_winners 2 (\<lambda>r. id' r = Some 1105) (\<lambda>r. r\<lparr>lottery_number := Some 106\<rparr>) john_db
   = (Inl (TriggerException (ImmutableFieldViolation (Some 105) (Some 106))), john_db)"
  by (simp add: update_winners_def before_update_row_def john_facts(1,2,6)
      coerce_row_john_number prevent_winner_data_loss_def john_present
      sql_neq_def)

lemma update_john_to_null:
  "update_winners 2 (\<lambda>r. id' r = Some 1105) (\<lambda>r. r\<lparr>lottery_number := None\<rparr>) john_db
   = (Inl (NotNullViolation ''lottery_number''), john_db)"
  by (simp add: update_winners_def before_update_row_def john_facts(1,2,6)
      coerce_row_john_number prevent_winner_data_loss_def john_present
      sql_neq_def update_lottery_winners_updated_at_def check_constraints_def
      trim_text_fields_keeps)

lemma update_john_out_of_range:
  "update_winners 2 (\<lambda>r. id' r = Some 1105) (\<lambda>r. r\<lparr>lottery_number := Some 2147483648\<rparr>) john_db
   = (Inl (NumericValueOutOfRange ''lottery_number''), john_db)"
  by (simp add: update_winners_def before_update_row_def john_facts coerce_row_john_number)

theorem lottery_number_change_is_rejected_witness:
  "prevent_winner_data_loss john (john\<lparr>lottery_number := Some 106\<rparr>)
     = Inl (ImmutableFieldViolation (Some 105) (Some 106))
   \<and> update_winners 2 (\<lambda>r. id' r = Some 1105) (\<lambda>r. r\<lparr>lottery_number := Some 106\<rparr>) john_db
     = (Inl (TriggerException (ImmutableFieldViolation (Some 105) (Some 106))), john_db)
   \<and> prevent_winner_data_loss john (john\<lparr>lottery_number := None\<rparr>)
     = Inr (trim_text_fields (john\<lparr>lottery_number := None\<rparr>))
   \<and> update_winners 2 (\<lambda>r. id' r = Some 1105) (\<lambda>r. r\<lparr>lottery_number := None\<rparr>) john_db
     = (Inl (NotNullViolation ''lottery_number''), john_db)
   \<and> update_winners 2 (\<lambda>r. id' r = Some 1105) (\<lambda>r. r\<lparr>lottery_number := Some 2147483648\<rparr>)
        john_db
     = (Inl (NumericValueOutOfRange ''lottery_number''), john_db)
   \<and> lottery_number (lottery_winners john_db ! 0) = Some 105"
proof -
  note claim = lottery_number_change_is_rejected [of john 105, THEN mp, OF john_facts(1)]
  have changed: "lottery_number (john\<lparr>lottery_number := Some 106\<rparr>) = Some 106
      \<and> (106 :: int) \<noteq> 105 \<and> required_fields_present (john\<lparr>lottery_number := Some 106\<rparr>)"
    by (simp add: required_fields_john_number)
  have null: "lottery_number (john\<lparr>lottery_number := None\<rparr>) = None
      \<and> required_fields_present (john\<lparr>lottery_number := None\<rparr>)"
    by (simp add: required_fields_john_number)
  from claim [of "john\<lparr>lottery_number := Some 106\<rparr>" 106, THEN conjunct1, THEN mp, OF changed]
  have trigger: "prevent_winner_data_loss john (john\<lparr>lottery_number := Some 106\<rparr>)
     = Inl (ImmutableFieldViolation (Some 105) (Some 106))" .
  from claim [of "john\<lparr>lottery_number := None\<rparr>", THEN conjunct2, THEN conjunct2,
      THEN conjunct1, THEN mp, OF null]
  have passes: "prevent_winner_data_loss john (john\<lparr>lottery_number := None\<rparr>)
     = Inr (trim_text_fields (john\<lparr>lottery_number := None\<rparr>))"
    by (rule conjunct1)
  from trigger passes update_john_to_106 update_john_to_null update_john_out_of_range
  show ?thesis
    by (simp add: john_facts)
qed

text \<open>
  The rejection of a changed \<open>lottery_number\<close> is not always
  \<open>ImmutableFieldViolation\<close>, as C3 has it: an update of the stored row from 105 to
  106 that also empties \<open>winner_name\<close> is rejected for the missing \<open>winner_name\<close>.
\<close>

theorem lottery_number_change_other_rejection:
  "lottery_number (john\<lparr>lottery_number := Some 106, winner_name := Some ''''\<rparr>)
     \<noteq> lottery_number john
   \<and> prevent_winner_data_loss john (john\<lparr>lottery_number := Some 106, winner_name := Some ''''\<rparr>)
     = Inl (MissingRequiredField ''winner_name'' (Some ''John Doe''))
   \<and> prevent_winner_data_loss john (john\<lparr>lottery_number := Some 106, winner_name := Some ''''\<rparr>)
     \<noteq> Inl (ImmutableFieldViolation (Some 105) (Some 106))"
  by (simp add: prevent_winner_data_loss_def is_null_or_empty_def sql_trim_def john_facts)

subsection \<open>Editing a winner\<close>

lemma handleSaveEdit_success:
  assumes "handleSaveEdit (Some w) updatedData db now = (UpdatedSuccessfully, db')"
  shows "\<exists>wid. id' w = Some wid
           \<and> update_rows now (\<lambda>r. id' r = Some wid) (edit_assignment updatedData)
                 (lottery_winners db) = Inr (lottery_winners db')"
    and "ticket_sales_ids db' = ticket_sales_ids db"
    and "auth_users_ids db' = auth_users_ids db"
proof -
  from assms obtain wid where wid: "id' w = Some wid"
    by (cases "id' w") (simp_all add: handleSaveEdit_def)
  from assms wid
  have "update_winners now (\<lambda>r. id' r = Some wid) (edit_assignment updatedData) db
        = (Inr (), db')"
    by (auto simp add: handleSaveEdit_def split: prod.splits sum.splits)
  then have rows: "update_rows now (\<lambda>r. id' r = Some wid) (edit_assignment updatedData)
                     (lottery_winners db) = Inr (lottery_winners db')"
    and "ticket_sales_ids db' = ticket_sales_ids db"
    and "auth_users_ids db' = auth_users_ids db"
    by (auto simp add: update_winners_def split: sum.splits if_splits option.splits)
  with wid show "\<exists>wid. id' w = Some wid
           \<and> update_rows now (\<lambda>r. id' r = Some wid) (edit_assignment updatedData)
                 (lottery_winners db) = Inr (lottery_winners db')"
    and "ticket_sales_ids db' = ticket_sales_ids db"
    and "auth_users_ids db' = auth_users_ids db"
    by simp_all
qed

lemma edited_row:
  "(trim_text_fields (edit_assignment updatedData r))\<lparr>updated_at := Some now\<rparr>
   = r\<lparr>prize_category :=
          map_option sql_trim (set_column (upd_prize_category updatedData) (prize_category r)),
        winner_name :=
          map_option sql_trim (set_column (upd_winner_name updatedData) (winner_name r)),
        winner_contact :=
          map_option sql_trim (set_column (upd_winner_contact updatedData) (winner_contact r)),
        winner_address :=
          map_option sql_trim (set_column (upd_winner_address updatedData) (winner_address r)),
        notes' := map_option sql_trim (set_column (upd_notes updatedData) (notes' r)),
        updated_at := Some now\<rparr>"
  by (simp add: trim_text_fields_def edit_assignment_def)

text \<open>
  Claim C7, with the column that the second \<^verbatim>\<open>BEFORE UPDATE\<close> trigger writes. A
  successful \<^verbatim>\<open>handleSaveEdit\<close> leaves every row with another id as it is, and
  writes in the edited row only \<open>prize_category\<close>, \<open>winner_name\<close>, \<open>winner_contact\<close>,
  \<open>winner_address\<close> and \<open>notes\<close> (the values sent, trimmed) and \<open>updated_at\<close>, which
  \<^verbatim>\<open>update_lottery_winners_updated_at\<close> sets to the instant of the update. Every
  other field, in particular \<open>lottery_number\<close>, \<open>id\<close>, \<open>ticket_sale_id\<close>,
  \<open>prize_quantity\<close>, \<open>diary_number\<close> and \<open>registered_at\<close>, keeps its value, whatever
  \<^verbatim>\<open>updatedData\<close> holds for it.
\<close>

theorem handleSaveEdit_frame:
  assumes "handleSaveEdit (Some w) updatedData db now = (UpdatedSuccessfully, db')"
  shows "lottery_winners db' =
           map (\<lambda>r. if id' r = id' w
                     then r\<lparr>prize_category :=
                              map_option sql_trim
                                (set_column (upd_prize_category updatedData) (prize_category r)),
                            winner_name :=
                              map_option sql_trim
                                (set_column (upd_winner_name updatedData) (winner_name r)),
                            winner_contact :=
                              map_option sql_trim
                                (set_column (upd_winner_contact updatedData) (winner_contact r)),
                            winner_address :=
                              map_option sql_trim
                                (set_column (upd_winner_address updatedData) (winner_address r)),
                            notes' :=
                              map_option sql_trim
                                (set_column (upd_notes updatedData) (notes' r)),
                            updated_at := Some now\<rparr>
                     else r) (lottery_winners db)
         \<and> length (lottery_winners db') = length (lottery_winners db)
         \<and> (\<forall>i < length (lottery_winners db).
               lottery_number (lottery_winners db' ! i) = lottery_number (lottery_winners db ! i)
               \<and> id' (lottery_winners db' ! i) = id' (lottery_winners db ! i)
               \<and> ticket_sale_id (lottery_winners db' ! i) = ticket_sale_id (lottery_winners db ! i)
               \<and> prize_quantity (lottery_winners db' ! i) = prize_quantity (lottery_winners db ! i)
               \<and> diary_number (lottery_winners db' ! i) = diary_number (lottery_winners db ! i)
               \<and> registered_at (lottery_winners db' ! i) = registered_at (lottery_winners db ! i)
               \<and> registered_by (lottery_winners db' ! i) = registered_by (lottery_winners db ! i)
               \<and> created_at (lottery_winners db' ! i) = created_at (lottery_winners db ! i)
               \<and> (id' (lottery_winners db ! i) \<noteq> id' w \<longrightarrow> lottery_winners db' ! i = lottery_winners db ! i))"
proof -
  have rows: "lottery_winners db' = map (\<lambda>r. if id' r = id' w
                          then (trim_text_fields (edit_assignment updatedData r))
                                 \<lparr>updated_at := Some now\<rparr>
                          else r) (lottery_winners db)"
  proof -
    from handleSaveEdit_success(1) [OF assms] obtain wid where wid: "id' w = Some wid"
      and updated: "update_rows now (\<lambda>r. id' r = Some wid) (edit_assignment updatedData)
                      (lottery_winners db) = Inr (lottery_winners db')"
      by (elim exE conjE)
    from update_rows_Inr [OF updated] wid show ?thesis
      by simp
  qed
  then have first: "lottery_winners db' =
           map (\<lambda>r. if id' r = id' w
                     then r\<lparr>prize_category :=
                              map_option sql_trim
                                (set_column (upd_prize_category updatedData) (prize_category r)),
                            winner_name :=
                              map_option sql_trim
                                (set_column (upd_winner_name updatedData) (winner_name r)),
                            winner_contact :=
                              map_option sql_trim
                                (set_column (upd_winner_contact updatedData) (winner_contact r)),
                            winner_address :=
                              map_option sql_trim
                                (set_column (upd_winner_address updatedData) (winner_address r)),
                            notes' :=
                              map_option sql_trim
                                (set_column (upd_notes updatedData) (notes' r)),
                            updated_at := Some now\<rparr>
                     else r) (lottery_winners db)"
    by (simp only: edited_row)
  have second: "length (lottery_winners db') = length (lottery_winners db)"
    using rows by simp
  have third: "\<forall>i < length (lottery_winners db).
               lottery_number (lottery_winners db' ! i) = lottery_number (lottery_winners db ! i)
               \<and> id' (lottery_winners db' ! i) = id' (lottery_winners db ! i)
               \<and> ticket_sale_id (lottery_winners db' ! i) = ticket_sale_id (lottery_winners db ! i)
               \<and> prize_quantity (lottery_winners db' ! i) = prize_quantity (lottery_winners db ! i)
               \<and> diary_number (lottery_winners db' ! i) = diary_number (lottery_winners db ! i)
               \<and> registered_at (lottery_winners db' ! i) = registered_at (lottery_winners db ! i)
               \<and> registered_by (lottery_winners db' ! i) = registered_by (lottery_winners db ! i)
               \<and> created_at (lottery_winners db' ! i) = created_at (lottery_winners db ! i)
               \<and> (id' (lottery_winners db ! i) \<noteq> id' w \<longrightarrow> lottery_winners db' ! i = lottery_winners db ! i)"
    unfolding first by simp
  from first second third show ?thesis
    by (intro conjI)
qed

lemma coerce_row_john_edit:
  "coerce_row (edit_assignment john_edit john) = Inr (edit_assignment john_edit john)"
  by (simp add: coerce_row_def coerce_integer_def coerce_varchar_def coerce_text_def
      edit_assignment_def set_column_def john_def john_edit_def)

lemma handleSaveEdit_john:
  "handleSaveEdit (Some john) john_edit john_db 2
   = (UpdatedSuccessfully,
      john_db\<lparr>lottery_winners :=
        [john\<lparr>prize_category := Some ''Fridge'', winner_name := Some ''John  Doe'',
              winner_address := None, updated_at := Some 2\<rparr>]\<rparr>)"
  unfolding handleSaveEdit_def update_winners_def
  by (simp add: john_facts(2,6) before_update_row_def coerce_row_john_edit)
    (simp add: prevent_winner_data_loss_def update_lottery_winners_updated_at_def
      check_constraints_def first_foreign_key_error_def check_foreign_keys_def
      edit_assignment_def set_column_def trim_text_fields_def is_null_or_empty_def sql_trim_def
      sql_neq_def john_def john_edit_def john_db_def)

theorem handleSaveEdit_frame_witness:
  "handleSaveEdit (Some john) john_edit john_db 2
     = (UpdatedSuccessfully,
        john_db\<lparr>lottery_winners :=
          [john\<lparr>prize_category := Some ''Fridge'', winner_name := Some ''John  Doe'',
                winner_address := None, updated_at := Some 2\<rparr>]\<rparr>)
   \<and> upd_lottery_number john_edit = Some 106
   \<and> lottery_number (lottery_winners (snd (handleSaveEdit (Some john) john_edit john_db 2)) ! 0)
       = Some 105
   \<and> prize_quantity (lottery_winners (snd (handleSaveEdit (Some john) john_edit john_db 2)) ! 0)
       = Some 3
   \<and> diary_number (lottery_winners (snd (handleSaveEdit (Some john) john_edit john_db 2)) ! 0)
       = Some 5"
proof -
  have first: "0 < length (lottery_winners john_db)"
    by (simp add: john_facts(6))
  note kept = handleSaveEdit_frame [OF handleSaveEdit_john, THEN conjunct2, THEN conjunct2,
      THEN spec, THEN mp, OF first]
  have stored: "lottery_winners john_db ! 0 = john"
    by (simp add: john_facts(6))
  from kept have "lottery_number (lottery_winners (snd (handleSaveEdit (Some john) john_edit john_db 2)) ! 0)
       = lottery_number john
     \<and> prize_quantity (lottery_winners (snd (handleSaveEdit (Some john) john_edit john_db 2)) ! 0)
       = prize_quantity john
     \<and> diary_number (lottery_winners (snd (handleSaveEdit (Some john) john_edit john_db 2)) ! 0)
       = diary_number john"
    unfolding handleSaveEdit_john stored by simp
  moreover have "lottery_number john = Some 105" "prize_quantity john = Some 3"
    "diary_number john = Some 5" "upd_lottery_number john_edit = Some 106"
    by (simp_all add: john_def john_edit_def)
  ultimately show ?thesis
    using handleSaveEdit_john by simp
qed

text \<open>
  Not every field besides the five keeps its value, as C7 has it: the successful edit of
  the stored row at the instant 2 changes \<open>updated_at\<close> from 1 to 2.
\<close>

theorem handleSaveEdit_changes_updated_at:
  "fst (handleSaveEdit (Some john) john_edit john_db 2) = UpdatedSuccessfully
   \<and> updated_at (lottery_winners (snd (handleSaveEdit (Some john) john_edit john_db 2)) ! 0)
       = Some 2
   \<and> updated_at (lottery_winners john_db ! 0) = Some 1
   \<and> updated_at (lottery_winners (snd (handleSaveEdit (Some john) john_edit john_db 2)) ! 0)
       \<noteq> updated_at (lottery_winners john_db ! 0)"
  unfolding handleSaveEdit_john by (simp add: john_def john_db_def)

subsection \<open>Registering a winner\<close>

lemma check_foreign_keys_cong:
  assumes "ticket_sales_ids db = ticket_sales_ids db0"
    and "auth_users_ids db = auth_users_ids db0"
  shows "check_foreign_keys db r = check_foreign_keys db0 r"
  by (simp only: check_foreign_keys_def assms)

lemma insert_winner_steps:
  assumes "insert_winner db new = Inr db'"
  shows "\<exists>converted. coerce_row new = Inr converted
           \<and> validate_winner_data_on_insert converted = Inr (trim_text_fields converted)
           \<and> check_constraints (trim_text_fields converted) = None
           \<and> check_foreign_keys db (trim_text_fields converted) = None
           \<and> db' = db\<lparr>lottery_winners := lottery_winners db @ [trim_text_fields converted]\<rparr>"
proof -
  from assms obtain converted where converted: "coerce_row new = Inr converted"
    unfolding insert_winner_def by (cases "coerce_row new") simp_all
  with assms obtain new' where new': "validate_winner_data_on_insert converted = Inr new'"
    unfolding insert_winner_def
    by (cases "validate_winner_data_on_insert converted") simp_all
  then have trimmed: "new' = trim_text_fields converted"
    by (rule validate_on_insert_Inr(1))
  from assms converted new' have constraints: "check_constraints new' = None"
    unfolding insert_winner_def by (cases "check_constraints new'") simp_all
  from assms converted new' constraints
  have "check_foreign_keys db new' = None"
    and "db' = db\<lparr>lottery_winners := lottery_winners db @ [new']\<rparr>"
    unfolding insert_winner_def by (auto split: if_splits option.splits)
  with converted new' constraints trimmed show ?thesis
    by simp
qed

lemma insert_winner_Inr:
  assumes "insert_winner db new = Inr db'"
  shows "db' = db\<lparr>lottery_winners := lottery_winners db @ [trim_text_fields new]\<rparr>"
proof -
  from insert_winner_steps [OF assms] obtain converted
    where "coerce_row new = Inr converted"
      and "db' = db\<lparr>lottery_winners := lottery_winners db @ [trim_text_fields converted]\<rparr>"
    by (elim exE conjE)
  then show ?thesis
    using coerce_row_Inr(1) by simp
qed

lemma insert_winner_other_table:
  assumes accepted: "insert_winner db0 new = Inr db0'"
    and tickets: "ticket_sales_ids db = ticket_sales_ids db0"
    and users: "auth_users_ids db = auth_users_ids db0"
    and new_id: "id' (last (lottery_winners db0')) \<notin> set (map id' (lottery_winners db))"
    and new_number: "lottery_number (last (lottery_winners db0'))
                     \<notin> set (map lottery_number (lottery_winners db))"
  shows "insert_winner db new
         = Inr (db\<lparr>lottery_winners := lottery_winners db @ [last (lottery_winners db0')]\<rparr>)"
proof -
  from insert_winner_steps [OF accepted] obtain converted
    where converted: "coerce_row new = Inr converted"
      and trigger: "validate_winner_data_on_insert converted = Inr (trim_text_fields converted)"
      and constraints: "check_constraints (trim_text_fields converted) = None"
      and keys: "check_foreign_keys db0 (trim_text_fields converted) = None"
      and db0': "db0' = db0\<lparr>lottery_winners :=
                             lottery_winners db0 @ [trim_text_fields converted]\<rparr>"
    by (elim exE conjE)
  have row: "last (lottery_winners db0') = trim_text_fields converted"
    by (simp add: db0')
  have "check_foreign_keys db (trim_text_fields converted) = None"
    using keys check_foreign_keys_cong [OF tickets users] by simp
  with converted trigger constraints new_id new_number show ?thesis
    unfolding insert_winner_def row by simp
qed

lemma registerWinner_success:
  assumes "registerWinner st ticket read db new_id now = (WinnerRegistered r, db', st')"
  shows "\<exists>category. insert_winner db (registration_row ticket category new_id now) = Inr db'
                    \<and> r = last (lottery_winners db')"
  using assms
  by (auto simp add: registerWinner_def Let_def
      split: option.splits if_splits sum.splits db_error.splits)

lemma registration_row_fields:
  "lottery_number (registration_row ticket category new_id now)
   = Some (ticket_lottery_number ticket)"
  "diary_number (registration_row ticket category new_id now)
   = (if diary ticket \<noteq> None then Some (getDiaryFromLotteryNumber (ticket_lottery_number ticket))
      else None)"
  by (simp_all add: registration_row_def Let_def)

subsection \<open>Registration on the sample data\<close>

lemma getPrizeQuantity_examples:
  "getPrizeQuantity ''THAR CAR'' = 1" "getPrizeQuantity ''Laptop'' = 3"
  by (simp_all add: getPrizeQuantity_def PRIZE_CATEGORIES_def)

lemma js_trim_examples:
  "js_trim ''THAR CAR'' = ''THAR CAR''" "js_trim ''Asha'' = ''Asha''"
  "js_trim ''9000000001'' = ''9000000001''"
  by (simp_all add: js_trim_def isWhiteSpace_def)

lemma search_page_facts:
  "selectedPrize search_page 7 = Some ''THAR CAR''"
  "existingWinners search_page = {12}"
  by (simp_all add: search_page_def)

lemma ticket_facts:
  "ticket_id ticket_7 = 7" "ticket_lottery_number ticket_7 = 7"
  "purchaser_name ticket_7 = Some ''Asha''" "purchaser_contact ticket_7 = Some ''9000000001''"
  by (simp_all add: ticket_7_def)

lemma missing_or_blank_examples:
  "\<not> missing_or_blank (Some ''Asha'')" "\<not> missing_or_blank (Some ''9000000001'')"
  by (simp_all add: missing_or_blank_def js_trim_examples)

lemma registration_row_ticket_7:
  "registration_row ticket_7 ''THAR CAR'' 1007 2 = asha_row"
  by (simp add: registration_row_def ticket_7_def asha_row_def Let_def
      getPrizeQuantity_examples js_trim_examples getDiaryFromLotteryNumber_def)

lemma coerce_row_asha: "coerce_row asha_row = Inr asha_row"
  by (simp add: coerce_row_def coerce_integer_def coerce_varchar_def coerce_text_def
      asha_row_def)

lemma validate_asha: "validate_winner_data_on_insert asha_row = Inr asha_row"
  by (simp add: validate_winner_data_on_insert_def asha_row_def trim_text_fields_def
      is_null_or_empty_def sql_trim_def)

lemma check_constraints_asha: "check_constraints asha_row = None"
  by (simp add: asha_row_def check_constraints_def is_null_or_empty_def sql_trim_def)

lemma check_foreign_keys_asha:
  "check_foreign_keys empty_db asha_row = None" "check_foreign_keys thar_db asha_row = None"
  by (simp_all add: asha_row_def check_foreign_keys_def empty_db_def thar_db_def)

lemma keys_asha:
  "id' asha_row \<notin> id' ` set (lottery_winners empty_db)"
  "lottery_number asha_row \<notin> lottery_number ` set (lottery_winners empty_db)"
  "id' asha_row \<notin> id' ` set (lottery_winners thar_db)"
  "lottery_number asha_row \<notin> lottery_number ` set (lottery_winners thar_db)"
  by (simp_all add: empty_db_def thar_db_def asha_row_def thar_winner_def)

lemma insert_asha_empty:
  "insert_winner empty_db asha_row
   = Inr (empty_db\<lparr>lottery_winners := lottery_winners empty_db @ [asha_row]\<rparr>)"
  unfolding insert_winner_def
  by (simp add: coerce_row_asha validate_asha check_constraints_asha check_foreign_keys_asha
      keys_asha)

lemma insert_asha:
  "insert_winner thar_db asha_row
   = Inr (thar_db\<lparr>lottery_winners := lottery_winners thar_db @ [asha_row]\<rparr>)"
  unfolding insert_winner_def
  by (simp add: coerce_row_asha validate_asha check_constraints_asha check_foreign_keys_asha
      keys_asha)

lemma select_examples:
  "select_eq_prize_category [] c = []"
  "select_eq_prize_category [thar_winner] ''THAR CAR'' = [thar_winner]"
  by (simp_all add: select_eq_prize_category_def thar_winner_def)

lemma thar_db_rows: "lottery_winners thar_db = [thar_winner]"
  by (simp add: thar_db_def)

lemma register_ticket_7_stale_read:
  "registerWinner search_page ticket_7 (Inr []) thar_db 1007 2
     = (WinnerRegistered asha_row,
        thar_db\<lparr>lottery_winners := lottery_winners thar_db @ [asha_row]\<rparr>,
        search_page\<lparr>existingWinners := insert 7 (existingWinners search_page),
          selectedPrize := (selectedPrize search_page)(7 := None),
          registeringWinner := None\<rparr>)"
  by (simp add: registerWinner_def Let_def search_page_facts ticket_facts checkIfAlreadyWon_def
      getRemainingQuantity_def select_examples getPrizeQuantity_examples
      missing_or_blank_examples registration_row_ticket_7 insert_asha)

subsection \<open>Properties of registration\<close>

text \<open>
  Claim C10. Every row that \<^verbatim>\<open>registerWinner\<close> stores is appended to the table,
  carries the ticket's \<open>lottery_number\<close>, and has a \<open>diary_number\<close> that is either absent
  or equal to \<open>getDiaryFromLotteryNumber\<close> of its \<open>lottery_number\<close>. The ticket is a sold
  ticket, and the number of a sold ticket is in \<open>[1, 39999]\<close> (the form of
  \<^verbatim>\<open>TicketSales.tsx\<close> takes no other); whenever \<open>diary_number\<close> is set on the row of
  such a ticket, the \<open>lottery_number\<close> lies in the range of that diary.
\<close>

theorem registered_row_diary_number:
  assumes "registerWinner st ticket read db new_id now = (WinnerRegistered r, db', st')"
  shows "lottery_winners db' = lottery_winners db @ [r]
       \<and> lottery_number r = Some (ticket_lottery_number ticket)
       \<and> (diary_number r = None
            \<or> diary_number r = Some (getDiaryFromLotteryNumber (ticket_lottery_number ticket)))
       \<and> (1 \<le> ticket_lottery_number ticket \<and> ticket_lottery_number ticket \<le> 39999
            \<longrightarrow> (\<forall>d. diary_number r = Some d
                       \<longrightarrow> validateLotteryNumberForDiary (ticket_lottery_number ticket) d))"
proof -
  from registerWinner_success [OF assms] obtain category
    where ins: "insert_winner db (registration_row ticket category new_id now) = Inr db'"
      and r: "r = last (lottery_winners db')"
    by blast
  let ?row = "registration_row ticket category new_id now"
  from insert_winner_Inr [OF ins] r have rows: "lottery_winners db' = lottery_winners db @ [r]"
    and row: "r = trim_text_fields ?row"
    by simp_all
  have number: "lottery_number r = Some (ticket_lottery_number ticket)"
    by (simp add: row trim_text_fields_keeps registration_row_fields)
  have diary: "diary_number r = None
            \<or> diary_number r = Some (getDiaryFromLotteryNumber (ticket_lottery_number ticket))"
    by (simp add: row trim_text_fields_keeps registration_row_fields)
  have in_range: "1 \<le> ticket_lottery_number ticket \<and> ticket_lottery_number ticket \<le> 39999
            \<longrightarrow> (\<forall>d. diary_number r = Some d
                       \<longrightarrow> validateLotteryNumberForDiary (ticket_lottery_number ticket) d)"
  proof (intro allI impI)
    fix d
    assume valid: "1 \<le> ticket_lottery_number ticket \<and> ticket_lottery_number ticket \<le> 39999"
      and d: "diary_number r = Some d"
    with diary have "d = getDiaryFromLotteryNumber (ticket_lottery_number ticket)"
      by simp
    with valid show "validateLotteryNumberForDiary (ticket_lottery_number ticket) d"
      using range_contains_own_ticket [of "ticket_lottery_number ticket"]
      by (simp add: validateLotteryNumberForDiary_def Let_def)
  qed
  from rows number diary in_range show ?thesis
    by (intro conjI)
qed

theorem registered_row_diary_number_witness:
  "fst (registerWinner search_page ticket_7 (Inr []) thar_db 1007 2) = WinnerRegistered asha_row
   \<and> lottery_number asha_row = Some 7 \<and> diary_number asha_row = Some 1
   \<and> getDiaryFromLotteryNumber 7 = 1
   \<and> validateLotteryNumberForDiary 7 1"
proof -
  note claim = registered_row_diary_number [OF register_ticket_7_stale_read]
  have valid: "1 \<le> ticket_lottery_number ticket_7 \<and> ticket_lottery_number ticket_7 \<le> 39999"
    by (simp add: ticket_facts)
  have diary: "diary_number asha_row = Some 1"
    by (simp add: asha_row_def)
  from claim [THEN conjunct2, THEN conjunct2, THEN conjunct2, THEN mp, OF valid, THEN spec,
      THEN mp, OF diary]
  have "validateLotteryNumberForDiary 7 1"
    by (simp add: ticket_facts)
  moreover from claim have "lottery_number asha_row = Some 7"
    by (simp add: ticket_facts)
  moreover have "getDiaryFromLotteryNumber 7 = 1"
    by (simp add: getDiaryFromLotteryNumber_def)
  ultimately show ?thesis
    using diary by (simp add: register_ticket_7_stale_read)
qed

text \<open>
  Claim C8. The quantity is read when a prize category is selected for the ticket and the
  ticket number is not among the winners the page knows. For every such attempt in which
  the rows read at that moment hold at least as many winners of the selected category as
  its fixed quantity, the remaining quantity is at most zero and \<^verbatim>\<open>registerWinner\<close>
  answers \<open>QuantityExceeded\<close> without any insert: the database and the page state are as
  before (they are as before also when one of the two earlier checks ends the attempt).
  The ceiling is enforced by this check alone: a row that \<^verbatim>\<open>INSERT\<close> accepts into the
  table in one state, it accepts into the table in every state in which the id and the
  \<open>lottery_number\<close> of the row are new, however many rows of its prize category that state
  holds.
\<close>

theorem quantity_precheck_rejects_without_insert:
  "(selectedPrize st (ticket_id ticket) = Some category \<and> category \<noteq> []
      \<and> \<not> checkIfAlreadyWon st (ticket_lottery_number ticket)
      \<and> getPrizeQuantity category \<le> int (length (select_eq_prize_category rows category))
     \<longrightarrow> getRemainingQuantity (Inr rows) category \<le> 0
         \<and> registerWinner st ticket (Inr rows) db new_id now
             = (QuantityExceeded category, db, st))
   \<and> (selectedPrize st (ticket_id ticket) = Some category
      \<and> getPrizeQuantity category \<le> int (length (select_eq_prize_category rows category))
     \<longrightarrow> snd (registerWinner st ticket (Inr rows) db new_id now) = (db, st))
   \<and> (insert_winner db0 new = Inr db0'
        \<and> ticket_sales_ids db = ticket_sales_ids db0
        \<and> auth_users_ids db = auth_users_ids db0
        \<and> id' (last (lottery_winners db0')) \<notin> set (map id' (lottery_winners db))
        \<and> lottery_number (last (lottery_winners db0'))
            \<notin> set (map lottery_number (lottery_winners db))
       \<longrightarrow> insert_winner db new
           = Inr (db\<lparr>lottery_winners := lottery_winners db @ [last (lottery_winners db0')]\<rparr>))"
proof (intro conjI impI)
  assume a: "selectedPrize st (ticket_id ticket) = Some category \<and> category \<noteq> []
      \<and> \<not> checkIfAlreadyWon st (ticket_lottery_number ticket)
      \<and> getPrizeQuantity category \<le> int (length (select_eq_prize_category rows category))"
  then show remaining: "getRemainingQuantity (Inr rows) category \<le> 0"
    by (simp add: getRemainingQuantity_def Let_def)
  with a show "registerWinner st ticket (Inr rows) db new_id now
             = (QuantityExceeded category, db, st)"
    by (simp add: registerWinner_def Let_def)
next
  assume a: "selectedPrize st (ticket_id ticket) = Some category
      \<and> getPrizeQuantity category \<le> int (length (select_eq_prize_category rows category))"
  then have "getRemainingQuantity (Inr rows) category \<le> 0"
    by (simp add: getRemainingQuantity_def Let_def)
  with a show "snd (registerWinner st ticket (Inr rows) db new_id now) = (db, st)"
    by (simp add: registerWinner_def Let_def)
next
  assume a: "insert_winner db0 new = Inr db0'
        \<and> ticket_sales_ids db = ticket_sales_ids db0
        \<and> auth_users_ids db = auth_users_ids db0
        \<and> id' (last (lottery_winners db0')) \<notin> set (map id' (lottery_winners db))
        \<and> lottery_number (last (lottery_winners db0'))
            \<notin> set (map lottery_number (lottery_winners db))"
  then show "insert_winner db new
           = Inr (db\<lparr>lottery_winners := lottery_winners db @ [last (lottery_winners db0')]\<rparr>)"
    by (intro insert_winner_other_table) simp_all
qed

theorem quantity_precheck_rejects_without_insert_witness:
  "getPrizeQuantity ''THAR CAR'' = 1
   \<and> length (select_eq_prize_category (lottery_winners thar_db) ''THAR CAR'') = 1
   \<and> registerWinner search_page ticket_7 (Inr (lottery_winners thar_db)) thar_db 1007 2
       = (QuantityExceeded ''THAR CAR'', thar_db, search_page)
   \<and> insert_winner empty_db asha_row
       = Inr (empty_db\<lparr>lottery_winners := lottery_winners empty_db @ [asha_row]\<rparr>)
   \<and> insert_winner thar_db asha_row
       = Inr (thar_db\<lparr>lottery_winners := lottery_winners thar_db @ [asha_row]\<rparr>)
   \<and> prize_category asha_row = Some ''THAR CAR''
   \<and> lottery_winners (fst (snd (registerWinner search_page ticket_7 (Inr []) thar_db 1007 2)))
       = [thar_winner, asha_row]"
proof -
  have reached: "selectedPrize search_page (ticket_id ticket_7) = Some ''THAR CAR''
      \<and> ''THAR CAR'' \<noteq> []
      \<and> \<not> checkIfAlreadyWon search_page (ticket_lottery_number ticket_7)
      \<and> getPrizeQuantity ''THAR CAR''
          \<le> int (length (select_eq_prize_category (lottery_winners thar_db) ''THAR CAR''))"
    by (simp add: thar_db_rows select_examples getPrizeQuantity_examples search_page_facts
        ticket_facts checkIfAlreadyWon_def)
  have last_row: "last (lottery_winners (empty_db\<lparr>lottery_winners :=
                    lottery_winners empty_db @ [asha_row]\<rparr>)) = asha_row"
    by simp
  have other: "insert_winner empty_db asha_row
        = Inr (empty_db\<lparr>lottery_winners := lottery_winners empty_db @ [asha_row]\<rparr>)
      \<and> ticket_sales_ids thar_db = ticket_sales_ids empty_db
      \<and> auth_users_ids thar_db = auth_users_ids empty_db
      \<and> id' (last (lottery_winners (empty_db\<lparr>lottery_winners :=
                    lottery_winners empty_db @ [asha_row]\<rparr>)))
          \<notin> set (map id' (lottery_winners thar_db))
      \<and> lottery_number (last (lottery_winners (empty_db\<lparr>lottery_winners :=
                    lottery_winners empty_db @ [asha_row]\<rparr>)))
          \<notin> set (map lottery_number (lottery_winners thar_db))"
    unfolding last_row using insert_asha_empty keys_asha(3,4)
    by (simp add: thar_db_def empty_db_def)
  note claim = quantity_precheck_rejects_without_insert
      [of search_page ticket_7 "''THAR CAR''" "lottery_winners thar_db" thar_db 1007 2
        empty_db asha_row "empty_db\<lparr>lottery_winners := lottery_winners empty_db @ [asha_row]\<rparr>"]
  from claim [THEN conjunct1, THEN mp, OF reached]
  have rejected: "registerWinner search_page ticket_7 (Inr (lottery_winners thar_db)) thar_db
                    1007 2
       = (QuantityExceeded ''THAR CAR'', thar_db, search_page)"
    by (rule conjunct2)
  from claim [THEN conjunct2, THEN conjunct2, THEN mp, OF other]
  have accepted: "insert_winner thar_db asha_row
       = Inr (thar_db\<lparr>lottery_winners := lottery_winners thar_db @ [asha_row]\<rparr>)"
    unfolding last_row .
  have "prize_category asha_row = Some ''THAR CAR''"
    by (simp add: asha_row_def)
  with rejected accepted insert_asha_empty show ?thesis
    by (simp add: register_ticket_7_stale_read thar_db_rows select_examples
        getPrizeQuantity_examples)
qed

end
